theory Spec2Isabelle
  imports Complex_Main
begin

section \<open>The IRC session handler of dispatch (server/irc_handler.go)\<close>

text \<open>
  A shallow embedding of \<^verbatim>\<open>ircHandler\<close>: the run loop, \<^verbatim>\<open>dispatchMessage\<close>, the
  handler table of \<^verbatim>\<open>initHandlers\<close> and every handler it registers. A handler mutates
  the session (\<^verbatim>\<open>i.whois\<close>, \<^verbatim>\<open>i.motdBuffer\<close>, \<^verbatim>\<open>i.listBuffer\<close>), sends events with
  \<^verbatim>\<open>sendJSON\<close> and calls its collaborators, some of them in a goroutine. The model passes
  the state explicitly and records every event and every collaborator call, in program
  order, in a trace. An index out of range is a run-time panic of Go: a handler returns
  \<open>Inl\<close> with the panic and the state reached when it happened.
\<close>

subsection \<open>Messages of the IRC package\<close>

text \<open>\<^verbatim>\<open>irc.Message\<close>: the fields the handlers read.\<close>

record irc_Message =
  Sender :: string
  Command :: string
  Params :: "string list"

text \<open>
  Modelled from the spec: \<^verbatim>\<open>Message.LastParam\<close> of pkg/irc, which is not among the source
  files; the helper accessor for "last parameter", the empty string when there is none.
\<close>

definition LastParam :: "irc_Message \<Rightarrow> string" where
  "LastParam msg = (if 0 < length (Params msg) then Params msg ! (length (Params msg) - 1) else [])"

text \<open>
  Modelled from the spec: the command identifiers of pkg/irc (its constants are not among
  the source files). Numeric replies are the three-digit codes of RFC 1459 and RFC 2812,
  whose leading digit 4 denotes an error; 470 is the forward notice.
\<close>

definition NICK :: string where "NICK = ''NICK''"
definition JOIN :: string where "JOIN = ''JOIN''"
definition PART :: string where "PART = ''PART''"
definition MODE :: string where "MODE = ''MODE''"
definition PRIVMSG :: string where "PRIVMSG = ''PRIVMSG''"
definition NOTICE :: string where "NOTICE = ''NOTICE''"
definition QUIT :: string where "QUIT = ''QUIT''"
definition TOPIC :: string where "TOPIC = ''TOPIC''"
definition ERROR :: string where "ERROR = ''ERROR''"
definition RPL_WELCOME :: string where "RPL_WELCOME = ''001''"
definition RPL_YOURHOST :: string where "RPL_YOURHOST = ''002''"
definition RPL_CREATED :: string where "RPL_CREATED = ''003''"
definition RPL_ISUPPORT :: string where "RPL_ISUPPORT = ''005''"
definition RPL_LUSERCLIENT :: string where "RPL_LUSERCLIENT = ''251''"
definition RPL_LUSEROP :: string where "RPL_LUSEROP = ''252''"
definition RPL_LUSERUNKNOWN :: string where "RPL_LUSERUNKNOWN = ''253''"
definition RPL_LUSERCHANNELS :: string where "RPL_LUSERCHANNELS = ''254''"
definition RPL_LUSERME :: string where "RPL_LUSERME = ''255''"
definition RPL_WHOISUSER :: string where "RPL_WHOISUSER = ''311''"
definition RPL_WHOISSERVER :: string where "RPL_WHOISSERVER = ''312''"
definition RPL_ENDOFWHOIS :: string where "RPL_ENDOFWHOIS = ''318''"
definition RPL_WHOISCHANNELS :: string where "RPL_WHOISCHANNELS = ''319''"
definition RPL_LIST :: string where "RPL_LIST = ''322''"
definition RPL_LISTEND :: string where "RPL_LISTEND = ''323''"
definition RPL_NOTOPIC :: string where "RPL_NOTOPIC = ''331''"
definition RPL_TOPIC :: string where "RPL_TOPIC = ''332''"
definition RPL_ENDOFNAMES :: string where "RPL_ENDOFNAMES = ''366''"
definition RPL_MOTD :: string where "RPL_MOTD = ''372''"
definition RPL_MOTDSTART :: string where "RPL_MOTDSTART = ''375''"
definition RPL_ENDOFMOTD :: string where "RPL_ENDOFMOTD = ''376''"
definition ERR_ERRONEUSNICKNAME :: string where "ERR_ERRONEUSNICKNAME = ''432''"
definition ERR_NICKNAMEINUSE :: string where "ERR_NICKNAMEINUSE = ''433''"
definition ERR_NICKCOLLISION :: string where "ERR_NICKCOLLISION = ''436''"
definition ERR_UNAVAILRESOURCE :: string where "ERR_UNAVAILRESOURCE = ''437''"
definition ERR_FORWARD :: string where "ERR_FORWARD = ''470''"

text \<open>\<^verbatim>\<open>irc.CTCP\<close>, \<^verbatim>\<open>irc.DCCSend\<close>, \<^verbatim>\<open>irc.ConnectionState\<close> and \<^verbatim>\<open>irc.DownloadProgress\<close>, by the
  fields the handler reads. A Go \<^verbatim>\<open>error\<close> is its \<^verbatim>\<open>Error()\<close> text, \<open>None\<close> for nil.\<close>

record CTCP =
  ctcp_Command :: string
  ctcp_Params :: string

record DCCSend_pack =
  pack_File :: string

record ConnectionState =
  Connected :: bool
  conn_Error :: "string option"

text \<open>A \<^verbatim>\<open>float64\<close>: a finite value is a rational number; Go's \<^verbatim>\<open>==\<close> against the finite
  constants 100 and 0 agrees with equality of these values.\<close>

datatype float64 = Finite rat | PosInf | NegInf | NaN

record DownloadProgress =
  prog_File :: string
  prog_Error :: "string option"
  PercCompletion :: float64
  Speed :: string
  BytesRemaining :: string
  SecondsToGo :: float64

subsection \<open>Events and session buffers (the structs of package server)\<close>

record IRCError =
  err_Server :: string
  err_Target :: string
  err_Message :: string

record WhoisReply =
  whois_Nick :: string
  whois_Username :: string
  whois_Host :: string
  whois_Realname :: string
  whois_Server :: string
  whois_Channels :: "string list"

record MOTD =
  motd_Server :: string
  motd_Title :: string
  motd_Content :: "string list"

record Message =
  msg_ID :: string
  msg_Server :: string
  msg_From :: string
  msg_To :: string
  msg_Content :: string

record DCCSend =
  dcc_Server :: string
  dcc_From :: string
  dcc_Filename :: string
  dcc_URL :: string

text \<open>\<^verbatim>\<open>storage.Message\<close> and \<^verbatim>\<open>storage.ChannelListItem\<close>.\<close>

record storage_Message =
  sm_ID :: string
  sm_Server :: string
  sm_From :: string
  sm_To :: string
  sm_Content :: string

record ChannelListItem =
  item_Name :: string
  item_UserCount :: int
  item_Topic :: string

text \<open>
  Modelled from the spec: \<^verbatim>\<open>storage.ChannelListIndex\<close> and \<^verbatim>\<open>NewMapChannelListIndex\<close>, not
  among the source files: "an abstract index type (capability: add(item), finish())". The
  model keeps the items in the order they were added and whether the index is finished.
\<close>

record ChannelListIndex =
  idx_items :: "ChannelListItem list"
  idx_finished :: bool

definition NewMapChannelListIndex :: ChannelListIndex where
  "NewMapChannelListIndex = \<lparr>idx_items = [], idx_finished = False\<rparr>"

definition Add :: "ChannelListItem \<Rightarrow> ChannelListIndex \<Rightarrow> ChannelListIndex" where
  "Add item idx = idx\<lparr>idx_items := idx_items idx @ [item]\<rparr>"

definition Finish :: "ChannelListIndex \<Rightarrow> ChannelListIndex" where
  "Finish idx = idx\<lparr>idx_finished := True\<rparr>"

text \<open>The zero values \<^verbatim>\<open>WhoisReply{}\<close> and \<^verbatim>\<open>MOTD{}\<close>.\<close>

definition WhoisReply_zero :: WhoisReply where
  "WhoisReply_zero = \<lparr>whois_Nick = [], whois_Username = [], whois_Host = [],
     whois_Realname = [], whois_Server = [], whois_Channels = []\<rparr>"

definition MOTD_zero :: MOTD where
  "MOTD_zero = \<lparr>motd_Server = [], motd_Title = [], motd_Content = []\<rparr>"

text \<open>The payload of an event: one constructor for each struct handed to \<^verbatim>\<open>sendJSON\<close>.\<close>

datatype payload =
    PNick string string string
  | PJoin string string "string list"
  | PPart string string string string
  | PMode string
  | PMessage Message
  | PQuit string string string
  | PFeatures string "(string \<times> string) list"
  | PWhois WhoisReply
  | PTopic string string string string
  | PUserlist string string "string list"
  | PMOTD MOTD
  | PNickFail string
  | PChannelForward string string string
  | PError IRCError
  | PDCCSend DCCSend
  | PConnectionUpdate string ConnectionState

text \<open>An argument of the variadic \<^verbatim>\<open>i.log\<close>: a string or an error.\<close>

datatype log_arg = LStr string | LErr string

text \<open>The calls to the collaborators: the storage of the user, the IRC client, the
  session state, the file system and the clock.\<close>

datatype call =
    SetNick string string
  | LogEvent string string "string list" "string list"
  | ClientTopic string
  | ClientList
  | SendLastMessages string string nat
  | AddChannel string string
  | RemoveChannel string string
  | AddOpenDM string string
  | LogMessage storage_Message
  | SetServerNameIfUnset string string
  | PublishIndex ChannelListIndex
  | ReceiveDCCSend DCCSend_pack irc_Message
  | OpenFile string string
  | FileClose
  | DownloadDCC DCCSend_pack
  | Sleep nat
  | DeleteIRC string
  | SetConnectionState string ConnectionState
  | Log nat string "log_arg list"

text \<open>One step of the trace: an event sent, a call made in line, or a call started in
  a goroutine with \<^verbatim>\<open>go\<close>.\<close>

datatype action = SendJSON string payload | Call call | Go call

text \<open>A value of the session's key-value settings (\<^verbatim>\<open>state.Set\<close>).\<close>

datatype setting = VBool bool | VString string

text \<open>
  The state: the three buffers of \<^verbatim>\<open>ircHandler\<close>, the settings of the session, the
  process-wide cache \<^verbatim>\<open>channelIndexes\<close>, the process-wide table of pending DCC offers, and
  the trace.
\<close>

record hstate =
  whois :: WhoisReply
  motdBuffer :: MOTD
  listBuffer :: "ChannelListIndex option"
  settings :: "string \<rightharpoonup> setting"
  channelIndexes :: "string \<rightharpoonup> ChannelListIndex"
  pendingDCC :: "string \<rightharpoonup> DCCSend_pack"
  trace :: "action list"

text \<open>
  What the handler reads from its collaborators while it handles one input: the client
  (\<^verbatim>\<open>Host\<close>, \<^verbatim>\<open>Is\<close>, \<^verbatim>\<open>Features\<close>), the helpers of pkg/irc on a message, the user, the
  configuration, and the library functions \<^verbatim>\<open>betterguid.New\<close>, \<^verbatim>\<open>strconv.Atoi\<close>,
  \<^verbatim>\<open>os.OpenFile\<close> and the \<^verbatim>\<open>%.1f\<close> verb of \<^verbatim>\<open>fmt\<close> (\<open>fmt_f\<close> takes the precision).
  \<open>needsUpdate\<close> is the second result of \<^verbatim>\<open>channelIndexes.Get\<close> for the host, and
  \<open>betterguid_New\<close> the identifier that \<^verbatim>\<open>betterguid.New\<close> returns.
\<close>

record env =
  Host :: string
  Is :: "string \<Rightarrow> bool"
  ToCTCP :: "irc_Message \<Rightarrow> CTCP option"
  IsFromServer :: "irc_Message \<Rightarrow> bool"
  ParseDCCSend :: "CTCP \<Rightarrow> DCCSend_pack option"
  GetNickChannels :: "irc_Message \<Rightarrow> string list"
  GetQuitChannels :: "irc_Message \<Rightarrow> string list"
  GetMode :: "irc_Message \<Rightarrow> string option"
  GetNamreplyUsers :: "irc_Message \<Rightarrow> string list"
  FeaturesMap :: "(string \<times> string) list"
  FeaturesString :: "string \<Rightarrow> string"
  needsUpdate :: bool
  Username :: string
  UserID :: nat
  DCC_Enabled :: bool
  Autoget_Enabled :: bool
  OpenFile_ok :: bool
  betterguid_New :: string
  Atoi :: "string \<Rightarrow> int"
  fmt_f :: "nat \<Rightarrow> float64 \<Rightarrow> string"

datatype panic = IndexOutOfRange nat nat | SliceBoundsOutOfRange nat nat

type_synonym result = "(panic \<times> hstate) + hstate"

subsection \<open>The session state (server/state.go, by what the handler calls)\<close>

definition sendJSON :: "string \<Rightarrow> payload \<Rightarrow> hstate \<Rightarrow> hstate" where
  "sendJSON t v s = s\<lparr>trace := trace s @ [SendJSON t v]\<rparr>"

definition do_call :: "call \<Rightarrow> hstate \<Rightarrow> hstate" where
  "do_call c s = s\<lparr>trace := trace s @ [Call c]\<rparr>"

definition go :: "call \<Rightarrow> hstate \<Rightarrow> hstate" where
  "go c s = s\<lparr>trace := trace s @ [Go c]\<rparr>"

text \<open>
  Modelled from the spec: the typed getters and the setter of the session settings and the
  keyed table of pending offers ("keyed get/set/delete"), which live in server/state.go,
  not among the source files. A getter gives the zero value for a missing key.
\<close>

definition state_Bool :: "hstate \<Rightarrow> string \<Rightarrow> bool" where
  "state_Bool s k = (case settings s k of Some (VBool b) \<Rightarrow> b | _ \<Rightarrow> False)"

definition state_String :: "hstate \<Rightarrow> string \<Rightarrow> string" where
  "state_String s k = (case settings s k of Some (VString v) \<Rightarrow> v | _ \<Rightarrow> [])"

definition state_Set :: "string \<Rightarrow> setting \<Rightarrow> hstate \<Rightarrow> hstate" where
  "state_Set k v s = s\<lparr>settings := (settings s)(k \<mapsto> v)\<rparr>"



subsection \<open>Library functions of Go\<close>

text \<open>\<^verbatim>\<open>strings.IndexAny\<close>, \<^verbatim>\<open>strings.HasPrefix\<close>, \<^verbatim>\<open>strings.TrimRight\<close> with a one-character
  cutset, \<^verbatim>\<open>strings.Split\<close> at a one-character separator and \<^verbatim>\<open>strings.Join\<close>.\<close>

fun IndexAny :: "string \<Rightarrow> string \<Rightarrow> int" where
  "IndexAny [] chars = - 1"
| "IndexAny (c # s) chars =
     (if c \<in> set chars then 0
      else (let r = IndexAny s chars in if r < 0 then - 1 else r + 1))"

definition HasPrefix :: "string \<Rightarrow> string \<Rightarrow> bool" where
  "HasPrefix s pre = (length pre \<le> length s \<and> take (length pre) s = pre)"

definition TrimRight :: "string \<Rightarrow> char \<Rightarrow> string" where
  "TrimRight s c = rev (dropWhile (\<lambda>x. x = c) (rev s))"

fun Split :: "string \<Rightarrow> char \<Rightarrow> string list" where
  "Split [] sep = [[]]"
| "Split (c # cs) sep =
     (if c = sep then [] # Split cs sep
      else (case Split cs sep of [] \<Rightarrow> [[c]] | w # ws \<Rightarrow> (c # w) # ws))"

fun Join :: "string list \<Rightarrow> string \<Rightarrow> string" where
  "Join [] sep = []"
| "Join [x] sep = x"
| "Join (x # y # ys) sep = x @ sep @ Join (y # ys) sep"

text \<open>
  \<^verbatim>\<open>fmt.Sprintf\<close> for the verbs this file uses: \<^verbatim>\<open>%s\<close> with a string or an error,
  \<^verbatim>\<open>%.1f\<close> with a \<^verbatim>\<open>float64\<close>, and \<^verbatim>\<open>%%\<close>. The rendering of a float at a precision is the
  library's, a parameter. A verb whose operand is missing or of the other kind is outside
  this fragment (no call of this file has one) and is left as it is written.
\<close>

datatype fmt_arg = AStr string | AFloat float64

fun Sprintf :: "(nat \<Rightarrow> float64 \<Rightarrow> string) \<Rightarrow> string \<Rightarrow> fmt_arg list \<Rightarrow> string" where
  "Sprintf ff [] as = []"
| "Sprintf ff (c # cs) as =
     (if c \<noteq> CHR ''%'' then c # Sprintf ff cs as
      else if take 1 cs = ''%'' then CHR ''%'' # Sprintf ff (drop 1 cs) as
      else if take 1 cs = ''s'' then
        (case as of AStr x # as' \<Rightarrow> x @ Sprintf ff (drop 1 cs) as'
         | _ \<Rightarrow> c # Sprintf ff cs as)
      else if take 3 cs = ''.1f'' then
        (case as of AFloat x # as' \<Rightarrow> ff 1 x @ Sprintf ff (drop 3 cs) as'
         | _ \<Rightarrow> c # Sprintf ff cs as)
      else c # Sprintf ff cs as)"

text \<open>Indexing a slice: the value, or the panic of Go with the state reached so far.\<close>

definition index :: "string list \<Rightarrow> nat \<Rightarrow> hstate \<Rightarrow> (panic \<times> hstate) + string" where
  "index ps n s =
     (if n < length ps then Inr (ps ! n) else Inl (IndexOutOfRange n (length ps), s))"

subsection \<open>The handlers\<close>

definition excludedErrors :: "string list" where
  "excludedErrors = [ERR_NICKNAMEINUSE, ERR_NICKCOLLISION, ERR_UNAVAILRESOURCE, ERR_FORWARD]"

definition isChannel :: "string \<Rightarrow> bool" where
  "isChannel s = (IndexAny s ''&#+!'' = 0)"

primrec isExcludedError_loop :: "string \<Rightarrow> string list \<Rightarrow> bool" where
  "isExcludedError_loop cmd [] = False"
| "isExcludedError_loop cmd (err # errs) =
     (if cmd = err then True else isExcludedError_loop cmd errs)"

definition isExcludedError :: "string \<Rightarrow> bool" where
  "isExcludedError cmd = isExcludedError_loop cmd excludedErrors"

definition nick :: "env \<Rightarrow> irc_Message \<Rightarrow> hstate \<Rightarrow> result" where
  "nick e msg s =
     (let s1 = sendJSON ''nick'' (PNick (Host e) (Sender msg) (LastParam msg)) s;
          s2 = (if Is e (LastParam msg) then go (SetNick (LastParam msg) (Host e)) s1 else s1);
          channels = GetNickChannels e msg
      in Inr (go (LogEvent (Host e) ''nick'' [Sender msg, LastParam msg] channels) s2))"

definition join :: "env \<Rightarrow> irc_Message \<Rightarrow> hstate \<Rightarrow> result" where
  "join e msg s =
     (let host = Host e;
          s1 = sendJSON ''join'' (PJoin host (Sender msg) (Params msg)) s
      in case index (Params msg) 0 s1 of
           Inl p \<Rightarrow> Inl p
         | Inr channel \<Rightarrow>
             (let s2 = (if Is e (Sender msg)
                        then go (AddChannel host channel)
                               (do_call (SendLastMessages host channel 50)
                                  (do_call (ClientTopic channel) s1))
                        else s1)
              in Inr (go (LogEvent host ''join'' [Sender msg] [channel]) s2)))"

definition part :: "env \<Rightarrow> irc_Message \<Rightarrow> hstate \<Rightarrow> result" where
  "part e msg s =
     (let host = Host e
      in case index (Params msg) 0 s of
           Inl p \<Rightarrow> Inl p
         | Inr channel \<Rightarrow>
             (let reason = (if length (Params msg) = 2 then Params msg ! 1 else []);
                  s1 = sendJSON ''part'' (PPart host (Sender msg) channel reason) s;
                  s2 = (if Is e (Sender msg) then go (RemoveChannel host channel) s1 else s1)
              in Inr (go (LogEvent host ''part'' [Sender msg] [channel]) s2)))"

definition mode :: "env \<Rightarrow> irc_Message \<Rightarrow> hstate \<Rightarrow> result" where
  "mode e msg s =
     (case GetMode e msg of
        Some m \<Rightarrow> Inr (sendJSON ''mode'' (PMode m) s)
      | None \<Rightarrow> Inr s)"

text \<open>The part of \<^verbatim>\<open>message\<close> after the CTCP filter.\<close>

definition message_body :: "env \<Rightarrow> irc_Message \<Rightarrow> hstate \<Rightarrow> result" where
  "message_body e msg s =
     (let message = \<lparr>msg_ID = betterguid_New e, msg_Server = Host e, msg_From = Sender msg,
                     msg_To = [], msg_Content = LastParam msg\<rparr>
      in case index (Params msg) 0 s of
           Inl p \<Rightarrow> Inl p
         | Inr target0 \<Rightarrow>
             (let (target, s1) =
                    (if Is e target0
                     then (msg_From message,
                           (let s' = sendJSON ''pm'' (PMessage message) s
                            in if \<not> IsFromServer e msg
                               then do_call (AddOpenDM (Host e) (msg_From message)) s'
                               else s'))
                     else (target0,
                           sendJSON ''message'' (PMessage (message\<lparr>msg_To := target0\<rparr>)) s))
              in if target \<noteq> ''*'' \<and> \<not> IsFromServer e msg
                 then Inr (go (LogMessage \<lparr>sm_ID = msg_ID message, sm_Server = msg_Server message,
                                 sm_From = msg_From message, sm_To = target,
                                 sm_Content = msg_Content message\<rparr>) s1)
                 else Inr s1))"

definition message :: "env \<Rightarrow> irc_Message \<Rightarrow> hstate \<Rightarrow> result" where
  "message e msg s =
     (case ToCTCP e msg of
        None \<Rightarrow> message_body e msg s
      | Some ctcp \<Rightarrow>
          (if ctcp_Command ctcp = ''DCC'' \<and> HasPrefix (ctcp_Params ctcp) ''SEND''
           then (case ParseDCCSend e ctcp of
                   Some pack \<Rightarrow> Inr (go (ReceiveDCCSend pack msg) s)
                 | None \<Rightarrow> message_body e msg s)
           else if ctcp_Command ctcp \<noteq> ''ACTION'' then Inr s
           else message_body e msg s))"

definition quit :: "env \<Rightarrow> irc_Message \<Rightarrow> hstate \<Rightarrow> result" where
  "quit e msg s =
     (let s1 = sendJSON ''quit'' (PQuit (Host e) (Sender msg) (LastParam msg)) s;
          channels = GetQuitChannels e msg
      in Inr (go (LogEvent (Host e) ''quit'' [Sender msg, LastParam msg] channels) s1))"

text \<open>The branch of \<^verbatim>\<open>info\<close> for the welcome reply.\<close>

definition info_welcome :: "env \<Rightarrow> irc_Message \<Rightarrow> hstate \<Rightarrow> result" where
  "info_welcome e msg s =
     (case index (Params msg) 0 s of
        Inl p \<Rightarrow> Inl p
      | Inr p0 \<Rightarrow>
          (let s1 = sendJSON ''nick'' (PNick (Host e) [] p0) s;
               s2 = (if needsUpdate e
                     then do_call ClientList (s1\<lparr>listBuffer := Some NewMapChannelListIndex\<rparr>)
                     else s1)
           in Inr (go (SetNick p0 (Host e)) s2)))"

definition info :: "env \<Rightarrow> irc_Message \<Rightarrow> hstate \<Rightarrow> result" where
  "info e msg s =
     (case (if Command msg = RPL_WELCOME then info_welcome e msg s else Inr s) of
        Inl p \<Rightarrow> Inl p
      | Inr s1 \<Rightarrow>
          (if 1 \<le> length (Params msg)
           then Inr (sendJSON ''pm'' (PMessage \<lparr>msg_ID = [], msg_Server = Host e,
                        msg_From = Sender msg, msg_To = [],
                        msg_Content = Join (drop 1 (Params msg)) '' ''\<rparr>) s1)
           else Inl (SliceBoundsOutOfRange 1 (length (Params msg)), s1)))"

definition features :: "env \<Rightarrow> irc_Message \<Rightarrow> hstate \<Rightarrow> result" where
  "features e msg s =
     (let s1 = sendJSON ''features'' (PFeatures (Host e) (FeaturesMap e)) s;
          name = FeaturesString e ''NETWORK''
      in if name \<noteq> [] then Inr (go (SetServerNameIfUnset name (Host e)) s1) else Inr s1)"

definition whoisUser :: "env \<Rightarrow> irc_Message \<Rightarrow> hstate \<Rightarrow> result" where
  "whoisUser e msg s =
     (case index (Params msg) 1 s of
        Inl p \<Rightarrow> Inl p
      | Inr p1 \<Rightarrow>
          (let s1 = s\<lparr>whois := (whois s)\<lparr>whois_Nick := p1\<rparr>\<rparr>
           in case index (Params msg) 2 s1 of
                Inl p \<Rightarrow> Inl p
              | Inr p2 \<Rightarrow>
                  (let s2 = s1\<lparr>whois := (whois s1)\<lparr>whois_Username := p2\<rparr>\<rparr>
                   in case index (Params msg) 3 s2 of
                        Inl p \<Rightarrow> Inl p
                      | Inr p3 \<Rightarrow>
                          (let s3 = s2\<lparr>whois := (whois s2)\<lparr>whois_Host := p3\<rparr>\<rparr>
                           in case index (Params msg) 5 s3 of
                                Inl p \<Rightarrow> Inl p
                              | Inr p5 \<Rightarrow>
                                  Inr (s3\<lparr>whois := (whois s3)\<lparr>whois_Realname := p5\<rparr>\<rparr>)))))"

definition whoisServer :: "env \<Rightarrow> irc_Message \<Rightarrow> hstate \<Rightarrow> result" where
  "whoisServer e msg s =
     (case index (Params msg) 2 s of
        Inl p \<Rightarrow> Inl p
      | Inr p2 \<Rightarrow> Inr (s\<lparr>whois := (whois s)\<lparr>whois_Server := p2\<rparr>\<rparr>))"

definition whoisChannels :: "env \<Rightarrow> irc_Message \<Rightarrow> hstate \<Rightarrow> result" where
  "whoisChannels e msg s =
     Inr (s\<lparr>whois := (whois s)\<lparr>whois_Channels :=
            whois_Channels (whois s) @ Split (TrimRight (LastParam msg) CHR '' '') CHR '' ''\<rparr>\<rparr>)"

definition whoisEnd :: "env \<Rightarrow> irc_Message \<Rightarrow> hstate \<Rightarrow> result" where
  "whoisEnd e msg s =
     (let s1 = (if whois_Nick (whois s) \<noteq> [] then sendJSON ''whois'' (PWhois (whois s)) s else s)
      in Inr (s1\<lparr>whois := WhoisReply_zero\<rparr>))"

definition topic :: "env \<Rightarrow> irc_Message \<Rightarrow> hstate \<Rightarrow> result" where
  "topic e msg s =
     (if Command msg = TOPIC
      then (case index (Params msg) 0 s of
              Inl p \<Rightarrow> Inl p
            | Inr channel \<Rightarrow>
                (let nick = Sender msg;
                     s1 = go (LogEvent (Host e) ''topic'' [nick, LastParam msg] [channel]) s
                 in Inr (sendJSON ''topic'' (PTopic (Host e) channel (LastParam msg) nick) s1)))
      else (case index (Params msg) 1 s of
              Inl p \<Rightarrow> Inl p
            | Inr channel \<Rightarrow>
                Inr (sendJSON ''topic'' (PTopic (Host e) channel (LastParam msg) []) s)))"

definition noTopic :: "env \<Rightarrow> irc_Message \<Rightarrow> hstate \<Rightarrow> result" where
  "noTopic e msg s =
     (case index (Params msg) 1 s of
        Inl p \<Rightarrow> Inl p
      | Inr channel \<Rightarrow> Inr (sendJSON ''topic'' (PTopic (Host e) channel [] []) s))"

definition namesEnd :: "env \<Rightarrow> irc_Message \<Rightarrow> hstate \<Rightarrow> result" where
  "namesEnd e msg s =
     (case index (Params msg) 1 s of
        Inl p \<Rightarrow> Inl p
      | Inr channel \<Rightarrow>
          Inr (sendJSON ''users'' (PUserlist (Host e) channel (GetNamreplyUsers e msg)) s))"

definition motdStart :: "env \<Rightarrow> irc_Message \<Rightarrow> hstate \<Rightarrow> result" where
  "motdStart e msg s =
     (let s1 = s\<lparr>motdBuffer := (motdBuffer s)\<lparr>motd_Server := Host e\<rparr>\<rparr>
      in Inr (s1\<lparr>motdBuffer := (motdBuffer s1)\<lparr>motd_Title := LastParam msg\<rparr>\<rparr>))"

definition motd :: "env \<Rightarrow> irc_Message \<Rightarrow> hstate \<Rightarrow> result" where
  "motd e msg s =
     Inr (s\<lparr>motdBuffer := (motdBuffer s)\<lparr>motd_Content :=
            motd_Content (motdBuffer s) @ [LastParam msg]\<rparr>\<rparr>)"

definition motdEnd :: "env \<Rightarrow> irc_Message \<Rightarrow> hstate \<Rightarrow> result" where
  "motdEnd e msg s =
     (let s1 = sendJSON ''motd'' (PMOTD (motdBuffer s)) s
      in Inr (s1\<lparr>motdBuffer := MOTD_zero\<rparr>))"

text \<open>The name of the setting that asks for a refresh of the channel list of a host.\<close>

definition update_chanlist :: "env \<Rightarrow> string" where
  "update_chanlist e = ''update_chanlist_'' @ Host e"

definition list_entry :: "env \<Rightarrow> irc_Message \<Rightarrow> hstate \<Rightarrow> result" where
  "list_entry e msg s =
     (let s1 = (if listBuffer s = None \<and> state_Bool s (update_chanlist e)
                then s\<lparr>listBuffer := Some NewMapChannelListIndex\<rparr> else s)
      in case listBuffer s1 of
           None \<Rightarrow> Inr s1
         | Some buf \<Rightarrow>
             (case index (Params msg) 2 s1 of
                Inl p \<Rightarrow> Inl p
              | Inr p2 \<Rightarrow>
                  (let userCount = Atoi e p2
                   in case index (Params msg) 1 s1 of
                        Inl p \<Rightarrow> Inl p
                      | Inr p1 \<Rightarrow>
                          Inr (s1\<lparr>listBuffer := Some (Add \<lparr>item_Name = p1,
                                 item_UserCount = userCount, item_Topic = LastParam msg\<rparr> buf)\<rparr>))))"

definition listEnd :: "env \<Rightarrow> irc_Message \<Rightarrow> hstate \<Rightarrow> result" where
  "listEnd e msg s =
     (case listBuffer s of
        None \<Rightarrow> Inr s
      | Some buf \<Rightarrow>
          (let s1 = state_Set (update_chanlist e) (VBool False) s;
               s2 = go (PublishIndex buf) s1
           in Inr (s2\<lparr>listBuffer := None\<rparr>)))"

text \<open>
  The body of the goroutine that \<^verbatim>\<open>listEnd\<close> starts: \<^verbatim>\<open>idx.Finish()\<close>, then
  \<^verbatim>\<open>channelIndexes.Set(i.client.Host(), idx)\<close>. Modelled from the spec: the cache itself
  is not among the source files; it is the "process-wide cache keyed by connection host",
  where a set replaces any prior value of the key.
\<close>

definition publishIndex :: "env \<Rightarrow> ChannelListIndex \<Rightarrow> hstate \<Rightarrow> hstate" where
  "publishIndex e idx s = s\<lparr>channelIndexes := (channelIndexes s)(Host e \<mapsto> Finish idx)\<rparr>"

definition badNick :: "env \<Rightarrow> irc_Message \<Rightarrow> hstate \<Rightarrow> result" where
  "badNick e msg s = Inr (sendJSON ''nick_fail'' (PNickFail (Host e)) s)"

definition forward :: "env \<Rightarrow> irc_Message \<Rightarrow> hstate \<Rightarrow> result" where
  "forward e msg s =
     (if 2 < length (Params msg)
      then Inr (sendJSON ''channel_forward''
                  (PChannelForward (Host e) (Params msg ! 1) (Params msg ! 2)) s)
      else Inr s)"

definition error :: "env \<Rightarrow> irc_Message \<Rightarrow> hstate \<Rightarrow> result" where
  "error e msg s =
     Inr (sendJSON ''error'' (PError \<lparr>err_Server = Host e, err_Target = [],
            err_Message = LastParam msg\<rparr>) s)"




text \<open>The handler table of \<^verbatim>\<open>initHandlers\<close>, a map from the command to its handler.\<close>

definition initHandlers :: "(string \<times> (env \<Rightarrow> irc_Message \<Rightarrow> hstate \<Rightarrow> result)) list" where
  "initHandlers =
     [(NICK, nick), (JOIN, join), (PART, part), (MODE, mode), (PRIVMSG, message),
      (NOTICE, message), (QUIT, quit), (TOPIC, topic), (ERROR, error),
      (RPL_WELCOME, info), (RPL_YOURHOST, info), (RPL_CREATED, info),
      (RPL_ISUPPORT, features), (RPL_LUSERCLIENT, info), (RPL_LUSEROP, info),
      (RPL_LUSERUNKNOWN, info), (RPL_LUSERCHANNELS, info), (RPL_LUSERME, info),
      (RPL_WHOISUSER, whoisUser), (RPL_WHOISSERVER, whoisServer),
      (RPL_WHOISCHANNELS, whoisChannels), (RPL_ENDOFWHOIS, whoisEnd),
      (RPL_NOTOPIC, noTopic), (RPL_TOPIC, topic), (RPL_ENDOFNAMES, namesEnd),
      (RPL_MOTDSTART, motdStart), (RPL_MOTD, motd), (RPL_ENDOFMOTD, motdEnd),
      (RPL_LIST, list_entry), (RPL_LISTEND, listEnd),
      (ERR_ERRONEUSNICKNAME, badNick), (ERR_FORWARD, forward)]"

definition handlers :: "string \<Rightarrow> (env \<Rightarrow> irc_Message \<Rightarrow> hstate \<Rightarrow> result) option" where
  "handlers = map_of initHandlers"

subsection \<open>Dispatch\<close>

text \<open>The loop of \<^verbatim>\<open>dispatchMessage\<close> over the parameters from index \<open>i\<close> on: the first
  one that is a channel becomes the target, which otherwise stays as it is.\<close>

function target_loop :: "string list \<Rightarrow> nat \<Rightarrow> string \<Rightarrow> string" where
  "target_loop ps i t =
     (if i < length ps
      then (if isChannel (ps ! i) then ps ! i else target_loop ps (i + 1) t)
      else t)"
  by pat_completeness auto
termination
  by (relation "measure (\<lambda>(ps, i, t). length ps - i)") auto

declare target_loop.simps [simp del]

text \<open>The \<^verbatim>\<open>IRCError\<close> that \<^verbatim>\<open>dispatchMessage\<close> builds for an error reply.\<close>

definition protocolError :: "env \<Rightarrow> irc_Message \<Rightarrow> IRCError" where
  "protocolError e msg =
     (let err = \<lparr>err_Server = Host e, err_Target = [], err_Message = LastParam msg\<rparr>
      in if 2 < length (Params msg)
         then err\<lparr>err_Target := target_loop (Params msg) 1 (err_Target err)\<rparr>
         else err)"

definition dispatchMessage :: "env \<Rightarrow> irc_Message \<Rightarrow> hstate \<Rightarrow> result" where
  "dispatchMessage e msg s =
     (case Command msg of
        [] \<Rightarrow> Inl (IndexOutOfRange 0 0, s)
      | c # cs \<Rightarrow>
          (let s1 = (if c = CHR ''4'' \<and> \<not> isExcludedError (Command msg)
                     then sendJSON ''error'' (PError (protocolError e msg)) s
                     else s)
           in case handlers (Command msg) of
                Some handler \<Rightarrow> handler e msg s1
              | None \<Rightarrow> Inr s1))"

subsection \<open>The run loop\<close>

definition ilog :: "env \<Rightarrow> log_arg list \<Rightarrow> hstate \<Rightarrow> hstate" where
  "ilog e v s = do_call (Log (UserID e) (Host e) v) s"

definition sendDCCInfo :: "env \<Rightarrow> string \<Rightarrow> bool \<Rightarrow> fmt_arg list \<Rightarrow> hstate \<Rightarrow> hstate" where
  "sendDCCInfo e format logged a s =
     (let msg = \<lparr>msg_ID = [], msg_Server = Host e, msg_From = ''@dcc'', msg_To = [],
                 msg_Content = Sprintf (fmt_f e) format a\<rparr>;
          s1 = sendJSON ''pm'' (PMessage msg) s
      in if logged
         then do_call (LogMessage \<lparr>sm_ID = [], sm_Server = msg_Server msg,
                         sm_From = msg_From msg, sm_To = [], sm_Content = msg_Content msg\<rparr>)
                (do_call (AddOpenDM (msg_Server msg) (msg_From msg)) s1)
         else s1)"

text \<open>The three cases of the \<^verbatim>\<open>select\<close> that go on: a connection-state change (with the
  local variable \<^verbatim>\<open>lastConnErr\<close>), a DCC progress notification, a message.\<close>

definition connectionChanged ::
  "env \<Rightarrow> ConnectionState \<Rightarrow> string option \<times> hstate \<Rightarrow> string option \<times> hstate" where
  "connectionChanged e state ls =
     (let lastConnErr = fst ls;
          s1 = sendJSON ''connection_update'' (PConnectionUpdate (Host e) state) (snd ls);
          s2 = do_call (SetConnectionState (Host e) state) s1
      in case conn_Error state of
           Some err \<Rightarrow>
             (if lastConnErr = None \<or> Some err \<noteq> lastConnErr
              then (Some err, ilog e [LStr ''Connection error:'', LErr err] s2)
              else if Connected state then (lastConnErr, ilog e [LStr ''Connected''] s2)
              else (lastConnErr, s2))
         | None \<Rightarrow>
             (if Connected state then (lastConnErr, ilog e [LStr ''Connected''] s2)
              else (lastConnErr, s2)))"

definition dccProgress :: "env \<Rightarrow> DownloadProgress \<Rightarrow> hstate \<Rightarrow> hstate" where
  "dccProgress e progress s =
     (case prog_Error progress of
        Some err \<Rightarrow>
          sendDCCInfo e ''%s: Download failed (%s)'' True
            [AStr (prog_File progress), AStr err] s
      | None \<Rightarrow>
          (if PercCompletion progress = Finite 100
           then sendDCCInfo e ''Download finished, get it here: %s://%s/downloads/%s/%s'' True
                  [AStr (state_String s ''scheme''), AStr (state_String s ''host''),
                   AStr (Username e), AStr (prog_File progress)] s
           else if PercCompletion progress = Finite 0
           then sendDCCInfo e ''%s: Starting download'' True [AStr (prog_File progress)] s
           else sendDCCInfo e ''%s: %.1f%%, %s, %s remaining, %.1fs left'' False
                  [AStr (prog_File progress), AFloat (PercCompletion progress),
                   AStr (Speed progress), AStr (BytesRemaining progress),
                   AFloat (SecondsToGo progress)] s))"

text \<open>
  What the \<^verbatim>\<open>select\<close> of the run loop receives: a message, the closing of the message
  channel, a connection-state change or a DCC progress notification. The loop is run on
  the list of what it receives, in the order it receives it, each with what the
  collaborators answer while it is handled. It ends by returning when the message channel
  is closed, by a panic, or it waits for more (the list is used up).
\<close>

datatype input =
    Msg irc_Message
  | Closed
  | ConnectionChanged ConnectionState
  | Progress DownloadProgress

record loop =
  returned :: bool
  lastConnErr :: "string option"
  session :: hstate

fun run_from :: "(env \<times> input) list \<Rightarrow> string option \<Rightarrow> hstate \<Rightarrow> (panic \<times> hstate) + loop" where
  "run_from [] l s = Inr \<lparr>returned = False, lastConnErr = l, session = s\<rparr>"
| "run_from ((e, Closed) # ins) l s =
     Inr \<lparr>returned = True, lastConnErr = l, session = do_call (DeleteIRC (Host e)) s\<rparr>"
| "run_from ((e, Msg msg) # ins) l s =
     (case dispatchMessage e msg s of
        Inl p \<Rightarrow> Inl p
      | Inr s1 \<Rightarrow> run_from ins l s1)"
| "run_from ((e, ConnectionChanged state) # ins) l s =
     (case connectionChanged e state (l, s) of (l1, s1) \<Rightarrow> run_from ins l1 s1)"
| "run_from ((e, Progress progress) # ins) l s = run_from ins l (dccProgress e progress s)"

text \<open>\<^verbatim>\<open>run\<close> starts with \<^verbatim>\<open>lastConnErr\<close> nil.\<close>

definition run :: "(env \<times> input) list \<Rightarrow> hstate \<Rightarrow> (panic \<times> hstate) + loop" where
  "run ins s = run_from ins None s"

text \<open>The session of \<^verbatim>\<open>newIRCHandler\<close>: every buffer at its zero value.\<close>

definition newIRCHandler ::
  "(string \<rightharpoonup> setting) \<Rightarrow> (string \<rightharpoonup> ChannelListIndex) \<Rightarrow> (string \<rightharpoonup> DCCSend_pack) \<Rightarrow> hstate" where
  "newIRCHandler st ci pd =
     \<lparr>whois = WhoisReply_zero, motdBuffer = MOTD_zero, listBuffer = None,
      settings = st, channelIndexes = ci, pendingDCC = pd, trace = []\<rparr>"

subsection \<open>Notions used in the statements\<close>

text \<open>A logging call, and a step that changes nothing but the trace, which it extends by
  events and calls other than logging.\<close>

fun is_log :: "action \<Rightarrow> bool" where
  "is_log (Call (Log u h v)) = True"
| "is_log a = False"

definition grows :: "hstate \<Rightarrow> hstate \<Rightarrow> bool" where
  "grows s s' = (\<exists>ys. s' = s\<lparr>trace := trace s @ ys\<rparr> \<and> filter is_log ys = [])"

definition only_trace :: "(env \<Rightarrow> irc_Message \<Rightarrow> hstate \<Rightarrow> result) \<Rightarrow> bool" where
  "only_trace h = (\<forall>e m s. case h e m s of Inl (p, s') \<Rightarrow> grows s s' | Inr s' \<Rightarrow> grows s s')"

definition keeps :: "(hstate \<Rightarrow> 'a) \<Rightarrow> (env \<Rightarrow> irc_Message \<Rightarrow> hstate \<Rightarrow> result) \<Rightarrow> bool" where
  "keeps f h = (\<forall>e m s s'. h e m s = Inr s' \<longrightarrow> f s' = f s)"

definition quiet :: "(env \<Rightarrow> irc_Message \<Rightarrow> hstate \<Rightarrow> result) \<Rightarrow> bool" where
  "quiet h = (\<forall>e m s s'. h e m s = Inr s' \<longrightarrow> filter is_log (trace s') = filter is_log (trace s))"

text \<open>An input that is a message with a given command; the last parameters of the MOTD
  lines among some inputs, in order.\<close>

fun is_command :: "string \<Rightarrow> env \<times> input \<Rightarrow> bool" where
  "is_command c (e, Msg m) = (Command m = c)"
| "is_command c (e, i) = False"

fun motd_lines :: "(env \<times> input) list \<Rightarrow> string list" where
  "motd_lines [] = []"
| "motd_lines ((e, Msg m) # ins) =
     (if Command m = RPL_MOTD then LastParam m # motd_lines ins else motd_lines ins)"
| "motd_lines ((e, i) # ins) = motd_lines ins"

text \<open>The reading of the specification: the MOTD lines received since the last start
  message (the accumulator is what was counted before these inputs).\<close>

fun lines_since_start :: "(env \<times> input) list \<Rightarrow> string list \<Rightarrow> string list" where
  "lines_since_start [] acc = acc"
| "lines_since_start ((e, Msg m) # ins) acc =
     lines_since_start ins
       (if Command m = RPL_MOTDSTART then []
        else if Command m = RPL_MOTD then acc @ [LastParam m] else acc)"
| "lines_since_start ((e, i) # ins) acc = lines_since_start ins acc"

text \<open>The connection errors that a trace has logged, in order, and the last of them.\<close>

definition conn_error_of :: "action \<Rightarrow> string option" where
  "conn_error_of a =
     (case a of
        Call (Log u h [LStr x, LErr err]) \<Rightarrow>
          (if x = ''Connection error:'' then Some err else None)
      | _ \<Rightarrow> None)"

fun logged_errors :: "action list \<Rightarrow> string list" where
  "logged_errors [] = []"
| "logged_errors (a # as) =
     (case conn_error_of a of Some err \<Rightarrow> err # logged_errors as | None \<Rightarrow> logged_errors as)"

definition last_logged_error :: "action list \<Rightarrow> string option" where
  "last_logged_error t = (if logged_errors t = [] then None else Some (last (logged_errors t)))"

text \<open>A sample client and a fresh session, for the closed instances of the theorems.\<close>

definition env0 :: env where
  "env0 = \<lparr>Host = ''irc.example.org'', Is = (\<lambda>n. n = ''me''), ToCTCP = (\<lambda>m. None),
     IsFromServer = (\<lambda>m. Sender m = []), ParseDCCSend = (\<lambda>c. None),
     GetNickChannels = (\<lambda>m. []), GetQuitChannels = (\<lambda>m. []), GetMode = (\<lambda>m. None),
     GetNamreplyUsers = (\<lambda>m. []), FeaturesMap = [], FeaturesString = (\<lambda>k. []),
     needsUpdate = False, Username = ''ann'', UserID = 1, DCC_Enabled = True,
     Autoget_Enabled = False, OpenFile_ok = True, betterguid_New = ''id1'',
     Atoi = (\<lambda>x. if x = ''12'' then 12 else 0),
     fmt_f = (\<lambda>n x. if x = Finite (25 / 2) then ''12.5'' else if x = Finite 8 then ''8.0''
                   else ''0.0'')\<rparr>"

definition s0 :: hstate where
  "s0 = newIRCHandler [''scheme'' \<mapsto> VString ''https'', ''host'' \<mapsto> VString ''chat.example.org'']
          Map.empty Map.empty"

section \<open>Properties\<close>

subsection \<open>The handler table and the footprint of the handlers\<close>

lemmas command_defs =
  NICK_def JOIN_def PART_def MODE_def PRIVMSG_def NOTICE_def QUIT_def TOPIC_def ERROR_def
  RPL_WELCOME_def RPL_YOURHOST_def RPL_CREATED_def RPL_ISUPPORT_def RPL_LUSERCLIENT_def
  RPL_LUSEROP_def RPL_LUSERUNKNOWN_def RPL_LUSERCHANNELS_def RPL_LUSERME_def
  RPL_WHOISUSER_def RPL_WHOISSERVER_def RPL_ENDOFWHOIS_def RPL_WHOISCHANNELS_def
  RPL_LIST_def RPL_LISTEND_def RPL_NOTOPIC_def RPL_TOPIC_def RPL_ENDOFNAMES_def
  RPL_MOTD_def RPL_MOTDSTART_def RPL_ENDOFMOTD_def ERR_ERRONEUSNICKNAME_def
  ERR_NICKNAMEINUSE_def ERR_NICKCOLLISION_def ERR_UNAVAILRESOURCE_def ERR_FORWARD_def

lemma grows_refl: "grows s s"
  unfolding grows_def by (rule exI[of _ "[]"]) simp

lemma grows_sendJSON: "grows s t \<Longrightarrow> grows s (sendJSON n v t)"
  by (auto simp: grows_def sendJSON_def)

lemma grows_do_call: "grows s t \<Longrightarrow> \<not> is_log (Call c) \<Longrightarrow> grows s (do_call c t)"
  by (auto simp: grows_def do_call_def)

lemma grows_go: "grows s t \<Longrightarrow> grows s (go c t)"
  by (auto simp: grows_def go_def)

lemmas grows_intros = grows_refl grows_sendJSON grows_do_call grows_go

lemma nick_only: "only_trace nick"
  by (simp add: only_trace_def nick_def Let_def grows_intros)
lemma join_only: "only_trace join"
  by (simp add: only_trace_def join_def Let_def index_def grows_intros)
lemma part_only: "only_trace part"
  by (simp add: only_trace_def part_def Let_def index_def grows_intros)
lemma mode_only: "only_trace mode"
  by (simp add: only_trace_def mode_def grows_intros split: option.splits)
lemma message_body_only: "only_trace message_body"
  by (simp add: only_trace_def message_body_def Let_def index_def grows_intros)
lemma message_only: "only_trace message"
  using message_body_only
  by (simp add: only_trace_def message_def grows_intros split: option.splits)
lemma quit_only: "only_trace quit"
  by (simp add: only_trace_def quit_def Let_def grows_intros)
lemma features_only: "only_trace features"
  by (simp add: only_trace_def features_def Let_def grows_intros)
lemma topic_only: "only_trace topic"
  by (simp add: only_trace_def topic_def Let_def index_def grows_intros)
lemma noTopic_only: "only_trace noTopic"
  by (simp add: only_trace_def noTopic_def Let_def index_def grows_intros)
lemma namesEnd_only: "only_trace namesEnd"
  by (simp add: only_trace_def namesEnd_def Let_def index_def grows_intros)
lemma badNick_only: "only_trace badNick"
  by (simp add: only_trace_def badNick_def Let_def index_def grows_intros)
lemma forward_only: "only_trace forward"
  by (simp add: only_trace_def forward_def Let_def index_def grows_intros)
lemma error_only: "only_trace error"
  by (simp add: only_trace_def error_def Let_def index_def grows_intros)

lemmas only_trace_handlers = nick_only join_only part_only mode_only message_only quit_only
  features_only topic_only noTopic_only namesEnd_only badNick_only forward_only error_only

lemma handlers_4: "handlers (CHR ''4'' # cs) =
   (if cs = ''32'' then Some badNick else if cs = ''70'' then Some forward else None)"
  by (simp add: handlers_def initHandlers_def command_defs)

lemma isExcluded_iff: "isExcludedError c \<longleftrightarrow> c = ''433'' \<or> c = ''436'' \<or> c = ''437'' \<or> c = ''470''"
  by (auto simp add: isExcludedError_def excludedErrors_def command_defs)

lemma target_loop_find:
  "target_loop ps i t = (case find isChannel (drop i ps) of Some c \<Rightarrow> c | None \<Rightarrow> t)"
proof (induction ps i t rule: target_loop.induct)
  case (1 ps i t)
  show ?case
  proof (cases "i < length ps")
    case True
    then have d: "drop i ps = ps ! i # drop (Suc i) ps"
      by (simp add: Cons_nth_drop_Suc)
    show ?thesis
      using True 1 by (subst target_loop.simps) (simp add: d)
  next
    case False
    then show ?thesis by (subst target_loop.simps) simp
  qed
qed


lemma only_trace_grows: "only_trace h \<Longrightarrow> h e m s = Inr s' \<Longrightarrow> grows s s'"
  unfolding only_trace_def
  by (drule spec[of _ e], drule spec[of _ m], drule spec[of _ s]) simp

lemma only_trace_quiet: "only_trace h \<Longrightarrow> quiet h"
  unfolding quiet_def by (auto dest!: only_trace_grows simp: grows_def)

lemmas effect_defs = sendJSON_def do_call_def go_def

lemma info_welcome_frame:
  "info_welcome e m s = Inr s' \<Longrightarrow>
     whois s' = whois s \<and> motdBuffer s' = motdBuffer s \<and>
     filter is_log (trace s') = filter is_log (trace s)"
  by (auto simp: info_welcome_def index_def Let_def effect_defs split: if_splits)

lemma info_frame:
  "info e m s = Inr s' \<Longrightarrow>
     whois s' = whois s \<and> motdBuffer s' = motdBuffer s \<and>
     filter is_log (trace s') = filter is_log (trace s)"
  by (auto simp: info_def effect_defs split: if_splits sum.splits dest!: info_welcome_frame)

lemma whoisUser_frame:
  "whoisUser e m s = Inr s' \<Longrightarrow> motdBuffer s' = motdBuffer s \<and> trace s' = trace s"
  by (auto simp: whoisUser_def index_def Let_def split: if_splits)

lemma whoisServer_frame:
  "whoisServer e m s = Inr s' \<Longrightarrow>
     whois_Nick (whois s') = whois_Nick (whois s) \<and> motdBuffer s' = motdBuffer s \<and> trace s' = trace s"
  by (auto simp: whoisServer_def index_def Let_def split: if_splits)

lemma whoisChannels_frame:
  "whoisChannels e m s = Inr s' \<Longrightarrow>
     whois_Nick (whois s') = whois_Nick (whois s) \<and> motdBuffer s' = motdBuffer s \<and> trace s' = trace s"
  by (auto simp: whoisChannels_def)

lemma whoisEnd_frame:
  "whoisEnd e m s = Inr s' \<Longrightarrow>
     motdBuffer s' = motdBuffer s \<and> filter is_log (trace s') = filter is_log (trace s)"
  by (auto simp: whoisEnd_def Let_def effect_defs split: if_splits)

lemma motdStart_frame:
  "motdStart e m s = Inr s' \<Longrightarrow>
     whois s' = whois s \<and> motd_Content (motdBuffer s') = motd_Content (motdBuffer s) \<and> trace s' = trace s"
  by (auto simp: motdStart_def Let_def)

lemma motd_frame:
  "motd e m s = Inr s' \<Longrightarrow> whois s' = whois s \<and> trace s' = trace s"
  by (auto simp: motd_def)

lemma motdEnd_frame:
  "motdEnd e m s = Inr s' \<Longrightarrow>
     whois s' = whois s \<and> filter is_log (trace s') = filter is_log (trace s)"
  by (auto simp: motdEnd_def Let_def effect_defs)

lemma list_entry_frame:
  "list_entry e m s = Inr s' \<Longrightarrow>
     whois s' = whois s \<and> motdBuffer s' = motdBuffer s \<and> trace s' = trace s"
  by (auto simp: list_entry_def Let_def index_def split: if_splits option.splits)

lemma listEnd_frame:
  "listEnd e m s = Inr s' \<Longrightarrow>
     whois s' = whois s \<and> motdBuffer s' = motdBuffer s \<and>
     filter is_log (trace s') = filter is_log (trace s)"
  by (auto simp: listEnd_def Let_def effect_defs state_Set_def split: option.splits)


lemma handlers_in_table: "handlers c = Some h \<Longrightarrow> (c, h) \<in> set initHandlers"
  by (simp add: handlers_def map_of_SomeD)

lemma quiet_special:
  "quiet info" "quiet whoisUser" "quiet whoisServer" "quiet whoisChannels" "quiet whoisEnd"
  "quiet motdStart" "quiet motd" "quiet motdEnd" "quiet list_entry" "quiet listEnd"
  unfolding quiet_def
  by (auto dest!: info_frame whoisUser_frame whoisServer_frame whoisChannels_frame
      whoisEnd_frame motdStart_frame motd_frame motdEnd_frame list_entry_frame listEnd_frame)

lemma table_quiet: "\<forall>(c, h) \<in> set initHandlers. quiet h"
  by (simp add: initHandlers_def quiet_special only_trace_handlers[THEN only_trace_quiet])

lemma dispatch_quiet:
  assumes "dispatchMessage e m s = Inr s'"
  shows "filter is_log (trace s') = filter is_log (trace s)"
proof (cases "Command m")
  case Nil
  with assms show ?thesis by (simp add: dispatchMessage_def)
next
  case (Cons c cs)
  define s1 where "s1 = (if c = CHR ''4'' \<and> \<not> isExcludedError (Command m)
                     then sendJSON ''error'' (PError (protocolError e m)) s else s)"
  have q1: "filter is_log (trace s1) = filter is_log (trace s)"
    by (simp add: s1_def sendJSON_def)
  show ?thesis
  proof (cases "handlers (Command m)")
    case None
    with assms Cons have "s' = s1" by (simp add: dispatchMessage_def s1_def)
    with q1 show ?thesis by simp
  next
    case (Some h)
    with assms Cons have r: "h e m s1 = Inr s'" by (simp add: dispatchMessage_def s1_def)
    from Some have "quiet h" using table_quiet handlers_in_table by fastforce
    with r have "filter is_log (trace s') = filter is_log (trace s1)" by (simp add: quiet_def)
    with q1 show ?thesis by simp
  qed
qed


lemma handlers_const:
  "handlers ''432'' = Some badNick" "handlers ''470'' = Some forward"
  "handlers ''311'' = Some whoisUser" "handlers ''318'' = Some whoisEnd"
  "handlers ''372'' = Some motd" "handlers ''375'' = Some motdStart"
  "handlers ''376'' = Some motdEnd" "handlers ''322'' = Some list_entry"
  "handlers ''323'' = Some listEnd" "handlers ''JOIN'' = Some join"
  "handlers ''PART'' = Some part" "handlers ''001'' = Some info"
  "handlers ''PRIVMSG'' = Some message" "handlers ''NOTICE'' = Some message"
  by (simp_all add: handlers_def initHandlers_def command_defs)

lemma protocolError_eq:
  "protocolError e msg = \<lparr>err_Server = Host e,
       err_Target = (if 2 < length (Params msg)
                     then (case find isChannel (drop 1 (Params msg)) of Some c \<Rightarrow> c | None \<Rightarrow> [])
                     else []),
       err_Message = LastParam msg\<rparr>"
  by (simp add: protocolError_def Let_def target_loop_find)

lemma handlers_Nil: "handlers [] = None"
  by (simp add: handlers_def initHandlers_def command_defs)

lemma dispatch_not_4:
  "Command m = c # cs \<Longrightarrow> c \<noteq> CHR ''4'' \<Longrightarrow>
   dispatchMessage e m s = (case handlers (Command m) of Some h \<Rightarrow> h e m s | None \<Rightarrow> Inr s)"
  by (simp add: dispatchMessage_def)

lemma dispatch_list: "Command m = RPL_LIST \<Longrightarrow> dispatchMessage e m s = list_entry e m s"
  by (simp add: dispatch_not_4[of m "CHR ''3''" "''22''"] RPL_LIST_def handlers_const)

lemma dispatch_listEnd: "Command m = RPL_LISTEND \<Longrightarrow> dispatchMessage e m s = listEnd e m s"
  by (simp add: dispatch_not_4[of m "CHR ''3''" "''23''"] RPL_LISTEND_def handlers_const)

lemma sendDCCInfo_eq:
  "sendDCCInfo e format logged a s =
     s\<lparr>trace := trace s @
        SendJSON ''pm'' (PMessage \<lparr>msg_ID = [], msg_Server = Host e, msg_From = ''@dcc'',
           msg_To = [], msg_Content = Sprintf (fmt_f e) format a\<rparr>)
        # (if logged
           then [Call (AddOpenDM (Host e) ''@dcc''),
                 Call (LogMessage \<lparr>sm_ID = [], sm_Server = Host e, sm_From = ''@dcc'',
                    sm_To = [], sm_Content = Sprintf (fmt_f e) format a\<rparr>)]
           else [])\<rparr>"
  by (simp add: sendDCCInfo_def Let_def sendJSON_def do_call_def)

lemma keeps_nick_only: "only_trace h \<Longrightarrow> keeps (\<lambda>s. whois_Nick (whois s)) h"
  by (auto simp: keeps_def grows_def dest!: only_trace_grows)

lemma keeps_nick_special:
  "keeps (\<lambda>s. whois_Nick (whois s)) info"
  "keeps (\<lambda>s. whois_Nick (whois s)) whoisServer"
  "keeps (\<lambda>s. whois_Nick (whois s)) whoisChannels"
  "keeps (\<lambda>s. whois_Nick (whois s)) motdStart"
  "keeps (\<lambda>s. whois_Nick (whois s)) motd"
  "keeps (\<lambda>s. whois_Nick (whois s)) motdEnd"
  "keeps (\<lambda>s. whois_Nick (whois s)) list_entry"
  "keeps (\<lambda>s. whois_Nick (whois s)) listEnd"
  unfolding keeps_def
  by (auto dest!: info_frame whoisServer_frame whoisChannels_frame motdStart_frame motd_frame
      motdEnd_frame list_entry_frame listEnd_frame)

lemma table_keeps_nick:
  "\<forall>(c, h) \<in> set initHandlers. c \<noteq> RPL_WHOISUSER \<longrightarrow> c \<noteq> RPL_ENDOFWHOIS \<longrightarrow>
     keeps (\<lambda>s. whois_Nick (whois s)) h"
  by (simp add: initHandlers_def command_defs keeps_nick_special
      only_trace_handlers[THEN keeps_nick_only])

lemma keeps_content_only: "only_trace h \<Longrightarrow> keeps (\<lambda>s. motd_Content (motdBuffer s)) h"
  by (auto simp: keeps_def grows_def dest!: only_trace_grows)

lemma keeps_content_special:
  "keeps (\<lambda>s. motd_Content (motdBuffer s)) info"
  "keeps (\<lambda>s. motd_Content (motdBuffer s)) whoisUser"
  "keeps (\<lambda>s. motd_Content (motdBuffer s)) whoisServer"
  "keeps (\<lambda>s. motd_Content (motdBuffer s)) whoisChannels"
  "keeps (\<lambda>s. motd_Content (motdBuffer s)) whoisEnd"
  "keeps (\<lambda>s. motd_Content (motdBuffer s)) motdStart"
  "keeps (\<lambda>s. motd_Content (motdBuffer s)) list_entry"
  "keeps (\<lambda>s. motd_Content (motdBuffer s)) listEnd"
  unfolding keeps_def
  by (auto dest!: info_frame whoisUser_frame whoisServer_frame whoisChannels_frame
      whoisEnd_frame motdStart_frame list_entry_frame listEnd_frame)

lemma table_keeps_content:
  "\<forall>(c, h) \<in> set initHandlers. c \<noteq> RPL_MOTD \<longrightarrow> c \<noteq> RPL_ENDOFMOTD \<longrightarrow>
     keeps (\<lambda>s. motd_Content (motdBuffer s)) h"
  by (simp add: initHandlers_def command_defs keeps_content_special
      only_trace_handlers[THEN keeps_content_only])

lemma dispatch_keeps:
  assumes r: "dispatchMessage e m s = Inr s'"
    and k: "\<And>h. handlers (Command m) = Some h \<Longrightarrow> keeps f h"
    and t: "\<And>a. f (sendJSON ''error'' a s) = f s"
  shows "f s' = f s"
proof (cases "Command m")
  case Nil
  with r show ?thesis by (simp add: dispatchMessage_def)
next
  case (Cons c cs)
  define s1 where "s1 = (if c = CHR ''4'' \<and> \<not> isExcludedError (Command m)
                     then sendJSON ''error'' (PError (protocolError e m)) s else s)"
  have q1: "f s1 = f s"
    by (simp add: s1_def t)
  show ?thesis
  proof (cases "handlers (Command m)")
    case None
    with r Cons have "s' = s1" by (simp add: dispatchMessage_def s1_def)
    with q1 show ?thesis by simp
  next
    case (Some h)
    with r Cons have "h e m s1 = Inr s'" by (simp add: dispatchMessage_def s1_def)
    with k[OF Some] have "f s' = f s1" by (simp add: keeps_def)
    with q1 show ?thesis by simp
  qed
qed

lemma dispatch_keeps_nick:
  assumes "dispatchMessage e m s = Inr s'" "Command m \<noteq> RPL_WHOISUSER" "Command m \<noteq> RPL_ENDOFWHOIS"
  shows "whois_Nick (whois s') = whois_Nick (whois s)"
proof (rule dispatch_keeps[OF assms(1)])
  fix h assume "handlers (Command m) = Some h"
  then have "(Command m, h) \<in> set initHandlers" by (rule handlers_in_table)
  with table_keeps_nick assms(2,3) show "keeps (\<lambda>s. whois_Nick (whois s)) h" by fastforce
qed (simp add: sendJSON_def)

lemma dispatch_keeps_content:
  assumes "dispatchMessage e m s = Inr s'" "Command m \<noteq> RPL_MOTD" "Command m \<noteq> RPL_ENDOFMOTD"
  shows "motd_Content (motdBuffer s') = motd_Content (motdBuffer s)"
proof (rule dispatch_keeps[OF assms(1)])
  fix h assume "handlers (Command m) = Some h"
  then have "(Command m, h) \<in> set initHandlers" by (rule handlers_in_table)
  with table_keeps_content assms(2,3) show "keeps (\<lambda>s. motd_Content (motdBuffer s)) h" by fastforce
qed (simp add: sendJSON_def)

lemma dispatch_whois:
  "Command m = RPL_WHOISUSER \<Longrightarrow> dispatchMessage e m s = whoisUser e m s"
  "Command m = RPL_ENDOFWHOIS \<Longrightarrow> dispatchMessage e m s = whoisEnd e m s"
  by (simp_all add: dispatch_not_4[of m "CHR ''3''"] command_defs handlers_const)

lemma dispatch_motd:
  "Command m = RPL_MOTDSTART \<Longrightarrow> dispatchMessage e m s = motdStart e m s"
  "Command m = RPL_MOTD \<Longrightarrow> dispatchMessage e m s = motd e m s"
  "Command m = RPL_ENDOFMOTD \<Longrightarrow> dispatchMessage e m s = motdEnd e m s"
  by (simp_all add: dispatch_not_4[of m "CHR ''3''"] command_defs handlers_const)

lemma dispatch_words:
  "Command m = JOIN \<Longrightarrow> dispatchMessage e m s = join e m s"
  "Command m = PART \<Longrightarrow> dispatchMessage e m s = part e m s"
  "Command m = RPL_WELCOME \<Longrightarrow> dispatchMessage e m s = info e m s"
  by (simp_all add: dispatch_not_4[of m "CHR ''J''"] dispatch_not_4[of m "CHR ''P''"]
      dispatch_not_4[of m "CHR ''0''"] command_defs handlers_const)

lemma whoisUser_Inr:
  "whoisUser e m s = Inr s' \<longleftrightarrow>
     6 \<le> length (Params m) \<and>
     s' = s\<lparr>whois := (whois s)\<lparr>whois_Nick := Params m ! 1, whois_Username := Params m ! 2,
             whois_Host := Params m ! 3, whois_Realname := Params m ! 5\<rparr>\<rparr>"
  by (auto simp: whoisUser_def index_def Let_def)

lemma whoisEnd_eq:
  "whoisEnd e m s =
     Inr ((if whois_Nick (whois s) \<noteq> []
           then s\<lparr>trace := trace s @ [SendJSON ''whois'' (PWhois (whois s))]\<rparr> else s)
          \<lparr>whois := WhoisReply_zero\<rparr>)"
  by (simp add: whoisEnd_def sendJSON_def)

lemma motd_steps:
  "motdStart e m s =
     Inr (s\<lparr>motdBuffer := (motdBuffer s)\<lparr>motd_Server := Host e, motd_Title := LastParam m\<rparr>\<rparr>)"
  "motd e m s =
     Inr (s\<lparr>motdBuffer := (motdBuffer s)\<lparr>motd_Content :=
            motd_Content (motdBuffer s) @ [LastParam m]\<rparr>\<rparr>)"
  "motdEnd e m s =
     Inr (s\<lparr>trace := trace s @ [SendJSON ''motd'' (PMOTD (motdBuffer s))],
            motdBuffer := MOTD_zero\<rparr>)"
  by (simp_all add: motdStart_def motd_def motdEnd_def sendJSON_def)

lemma connectionChanged_eq:
  "connectionChanged e st (l, s) =
     (case conn_Error st of
        Some err \<Rightarrow> if l \<noteq> Some err then Some err else l
      | None \<Rightarrow> l,
      s\<lparr>trace := trace s @
           [SendJSON ''connection_update'' (PConnectionUpdate (Host e) st),
            Call (SetConnectionState (Host e) st)] @
           (case conn_Error st of
              Some err \<Rightarrow>
                if l \<noteq> Some err
                then [Call (Log (UserID e) (Host e) [LStr ''Connection error:'', LErr err])]
                else if Connected st then [Call (Log (UserID e) (Host e) [LStr ''Connected''])]
                else []
            | None \<Rightarrow>
                if Connected st then [Call (Log (UserID e) (Host e) [LStr ''Connected''])]
                else [])\<rparr>)"
  by (auto simp: connectionChanged_def Let_def ilog_def sendJSON_def do_call_def
      split: option.splits)

lemma connectionChanged_frame:
  "whois (snd (connectionChanged e st ls)) = whois (snd ls)"
  "motdBuffer (snd (connectionChanged e st ls)) = motdBuffer (snd ls)"
  by (simp_all add: connectionChanged_def Let_def ilog_def sendJSON_def do_call_def
      split: option.splits)

lemma dccProgress_frame:
  "whois (dccProgress e p s) = whois s"
  "motdBuffer (dccProgress e p s) = motdBuffer s"
  by (simp_all add: dccProgress_def sendDCCInfo_eq split: option.splits)

lemma dccProgress_quiet: "filter is_log (trace (dccProgress e p s)) = filter is_log (trace s)"
  by (simp add: dccProgress_def sendDCCInfo_eq split: option.splits)

subsection \<open>Error replies\<close>

text \<open>
  C1, in the form that holds of the code. For every message whose command begins with the digit 4 and is not one of
  the four excluded identifiers, dispatch first sends an \<open>error\<close> event with the host of
  the connection as server and the last parameter as text; its target is the first
  channel-shaped parameter at index 1 or later when the message has more than two
  parameters, and is empty otherwise; only the erroneous-nickname reply adds its own event
  after it. For the four excluded identifiers no \<open>error\<close> event is sent: nothing is sent,
  but the forward event of a forward notice that has more than two parameters.
\<close>

theorem dispatch_error_reply:
  "(Command msg = CHR ''4'' # cs \<and> \<not> isExcludedError (Command msg) \<longrightarrow>
      dispatchMessage e msg s = Inr (s\<lparr>trace := trace s @
        SendJSON ''error'' (PError \<lparr>err_Server = Host e,
            err_Target = (if 2 < length (Params msg)
                          then (case find isChannel (drop 1 (Params msg)) of
                                  Some c \<Rightarrow> c | None \<Rightarrow> [])
                          else []),
            err_Message = LastParam msg\<rparr>)
        # (if Command msg = ERR_ERRONEUSNICKNAME
           then [SendJSON ''nick_fail'' (PNickFail (Host e))] else [])\<rparr>)) \<and>
   (isExcludedError (Command msg) \<longrightarrow>
      dispatchMessage e msg s =
        Inr (if Command msg = ERR_FORWARD \<and> 2 < length (Params msg)
             then s\<lparr>trace := trace s @ [SendJSON ''channel_forward''
                    (PChannelForward (Host e) (Params msg ! 1) (Params msg ! 2))]\<rparr>
             else s))"
proof (intro conjI impI)
  assume a: "Command msg = CHR ''4'' # cs \<and> \<not> isExcludedError (Command msg)"
  then have c: "Command msg = CHR ''4'' # cs"
    and cs: "cs \<noteq> ''33''" "cs \<noteq> ''36''" "cs \<noteq> ''37''" "cs \<noteq> ''70''"
    by (auto simp: isExcluded_iff)
  from c cs show "dispatchMessage e msg s = Inr (s\<lparr>trace := trace s @
        SendJSON ''error'' (PError \<lparr>err_Server = Host e,
            err_Target = (if 2 < length (Params msg)
                          then (case find isChannel (drop 1 (Params msg)) of
                                  Some c \<Rightarrow> c | None \<Rightarrow> [])
                          else []),
            err_Message = LastParam msg\<rparr>)
        # (if Command msg = ERR_ERRONEUSNICKNAME
           then [SendJSON ''nick_fail'' (PNickFail (Host e))] else [])\<rparr>)"
    by (simp add: dispatchMessage_def handlers_4 protocolError_eq sendJSON_def badNick_def
        ERR_ERRONEUSNICKNAME_def isExcluded_iff)
next
  assume a: "isExcludedError (Command msg)"
  then consider "Command msg = ''433''" | "Command msg = ''436''" | "Command msg = ''437''"
    | "Command msg = ''470''" by (auto simp: isExcluded_iff)
  then show "dispatchMessage e msg s =
        Inr (if Command msg = ERR_FORWARD \<and> 2 < length (Params msg)
             then s\<lparr>trace := trace s @ [SendJSON ''channel_forward''
                    (PChannelForward (Host e) (Params msg ! 1) (Params msg ! 2))]\<rparr>
             else s)"
    using a
    by cases (simp_all add: dispatchMessage_def handlers_4 forward_def sendJSON_def ERR_FORWARD_def)
qed

text \<open>The theorem at an error reply with its channel, and at the nickname-in-use reply.\<close>

theorem dispatch_error_reply_witness:
  "dispatchMessage env0 \<lparr>Sender = ''irc.example.org'', Command = ''403'',
       Params = [''me'', ''#nowhere'', ''No such channel'']\<rparr> s0 =
     Inr (s0\<lparr>trace := [SendJSON ''error'' (PError \<lparr>err_Server = ''irc.example.org'',
        err_Target = ''#nowhere'', err_Message = ''No such channel''\<rparr>)]\<rparr>) \<and>
   dispatchMessage env0 \<lparr>Sender = ''irc.example.org'', Command = ''433'',
       Params = [''*'', ''me'', ''Nickname is already in use'']\<rparr> s0 = Inr s0"
  using dispatch_error_reply [of "\<lparr>Sender = ''irc.example.org'', Command = ''403'',
       Params = [''me'', ''#nowhere'', ''No such channel'']\<rparr>" "''03''" env0 s0]
    dispatch_error_reply [of "\<lparr>Sender = ''irc.example.org'', Command = ''433'',
       Params = [''*'', ''me'', ''Nickname is already in use'']\<rparr>" "''33''" env0 s0]
  by (simp add: isExcluded_iff env0_def s0_def newIRCHandler_def LastParam_def isChannel_def
      command_defs)

text \<open>
  The target is not the first channel-shaped parameter of the message in general: no
  parameter is looked at when there are at most two, and the one at index 0 never is.
\<close>

theorem dispatch_error_target_counterexample:
  "dispatchMessage env0 \<lparr>Sender = ''irc.example.org'', Command = ''403'',
       Params = [''me'', ''#nowhere'']\<rparr> s0 =
     Inr (s0\<lparr>trace := [SendJSON ''error'' (PError \<lparr>err_Server = ''irc.example.org'',
        err_Target = [], err_Message = ''#nowhere''\<rparr>)]\<rparr>) \<and>
   find isChannel [''me'', ''#nowhere''] = Some ''#nowhere'' \<and>
   dispatchMessage env0 \<lparr>Sender = ''irc.example.org'', Command = ''404'',
       Params = [''#dispatch'', ''me'', ''Cannot send to channel'']\<rparr> s0 =
     Inr (s0\<lparr>trace := [SendJSON ''error'' (PError \<lparr>err_Server = ''irc.example.org'',
        err_Target = [], err_Message = ''Cannot send to channel''\<rparr>)]\<rparr>) \<and>
   find isChannel [''#dispatch'', ''me'', ''Cannot send to channel''] = Some ''#dispatch''"
  by (simp add: dispatchMessage_def handlers_4 protocolError_eq sendJSON_def isExcluded_iff
      env0_def s0_def newIRCHandler_def LastParam_def isChannel_def)

text \<open>
  C10. A message whose command is the erroneous-nickname error code sends two events, in
  this order: the \<open>error\<close> event of the error conversion, with the host as server and
  the last parameter as text, then the \<open>nick_fail\<close> event of its handler. The error
  conversion never suppresses ordinary dispatch: whatever the command, its registered
  handler is run, on the state that the conversion leaves.
\<close>

theorem erroneous_nickname_events:
  "(Command msg = ERR_ERRONEUSNICKNAME \<longrightarrow>
      dispatchMessage e msg s =
        Inr (s\<lparr>trace := trace s @
               [SendJSON ''error'' (PError (protocolError e msg)),
                SendJSON ''nick_fail'' (PNickFail (Host e))]\<rparr>) \<and>
      err_Server (protocolError e msg) = Host e \<and>
      err_Message (protocolError e msg) = LastParam msg) \<and>
   (handlers (Command msg) = Some h \<longrightarrow>
      dispatchMessage e msg s =
        h e msg (if hd (Command msg) = CHR ''4'' \<and> \<not> isExcludedError (Command msg)
                 then sendJSON ''error'' (PError (protocolError e msg)) s else s))"
proof (intro conjI impI)
  assume c: "Command msg = ERR_ERRONEUSNICKNAME"
  then show "dispatchMessage e msg s =
        Inr (s\<lparr>trace := trace s @
               [SendJSON ''error'' (PError (protocolError e msg)),
                SendJSON ''nick_fail'' (PNickFail (Host e))]\<rparr>)"
    by (simp add: dispatchMessage_def ERR_ERRONEUSNICKNAME_def handlers_const isExcluded_iff
        badNick_def sendJSON_def)
next
  show "err_Server (protocolError e msg) = Host e"
    by (simp add: protocolError_eq)
next
  show "err_Message (protocolError e msg) = LastParam msg"
    by (simp add: protocolError_eq)
next
  assume h: "handlers (Command msg) = Some h"
  then obtain c cs where c: "Command msg = c # cs"
    by (cases "Command msg") (simp_all add: handlers_Nil)
  with h show "dispatchMessage e msg s =
        h e msg (if hd (Command msg) = CHR ''4'' \<and> \<not> isExcludedError (Command msg)
                 then sendJSON ''error'' (PError (protocolError e msg)) s else s)"
    by (simp add: dispatchMessage_def)
qed

text \<open>The theorem at an erroneous-nickname reply, and at a forward notice, whose handler
  runs on the state as it was.\<close>

theorem erroneous_nickname_events_witness:
  "dispatchMessage env0 \<lparr>Sender = ''irc.example.org'', Command = ''432'',
       Params = [''me'', ''b@d'', ''Erroneous nickname'']\<rparr> s0 =
     Inr (s0\<lparr>trace := [SendJSON ''error'' (PError \<lparr>err_Server = ''irc.example.org'',
               err_Target = [], err_Message = ''Erroneous nickname''\<rparr>),
             SendJSON ''nick_fail'' (PNickFail ''irc.example.org'')]\<rparr>) \<and>
   dispatchMessage env0 \<lparr>Sender = ''irc.example.org'', Command = ''470'',
       Params = [''me'', ''#old'', ''#new'', ''Forwarding to another channel'']\<rparr> s0 =
     forward env0 \<lparr>Sender = ''irc.example.org'', Command = ''470'',
       Params = [''me'', ''#old'', ''#new'', ''Forwarding to another channel'']\<rparr> s0"
  using erroneous_nickname_events [of "\<lparr>Sender = ''irc.example.org'', Command = ''432'',
       Params = [''me'', ''b@d'', ''Erroneous nickname'']\<rparr>" env0 s0 badNick]
    erroneous_nickname_events [of "\<lparr>Sender = ''irc.example.org'', Command = ''470'',
       Params = [''me'', ''#old'', ''#new'', ''Forwarding to another channel'']\<rparr>" env0 s0 forward]
  by (simp add: handlers_const isExcluded_iff protocolError_eq env0_def s0_def
      newIRCHandler_def LastParam_def isChannel_def command_defs)

subsection \<open>Messages and notices\<close>

text \<open>
  C3. A message or notice that is not CTCP, or is a CTCP action, and has a target
  parameter: when the target is the session's own identity a \<open>pm\<close> event is sent and,
  unless the sender is the server, the sender is registered as an open direct-message
  conversation, and the storage target is the sender; otherwise a \<open>message\<close> event with
  the target channel is sent, and no \<open>pm\<close> event. The message is logged to storage if
  and only if the effective target is not \<open>*\<close> and the message is not from the server.
\<close>

theorem message_routing:
  assumes "Params msg = target # ps"
    and "ToCTCP e msg = None \<or> (\<exists>c. ToCTCP e msg = Some c \<and> ctcp_Command c = ''ACTION'')"
  shows "message e msg s =
     Inr (s\<lparr>trace := trace s @
        (if Is e target
         then SendJSON ''pm'' (PMessage \<lparr>msg_ID = betterguid_New e, msg_Server = Host e,
                msg_From = Sender msg, msg_To = [], msg_Content = LastParam msg\<rparr>)
              # (if IsFromServer e msg then [] else [Call (AddOpenDM (Host e) (Sender msg))])
         else [SendJSON ''message'' (PMessage \<lparr>msg_ID = betterguid_New e, msg_Server = Host e,
                msg_From = Sender msg, msg_To = target, msg_Content = LastParam msg\<rparr>)])
        @ (if (if Is e target then Sender msg else target) \<noteq> ''*'' \<and> \<not> IsFromServer e msg
           then [Go (LogMessage \<lparr>sm_ID = betterguid_New e, sm_Server = Host e,
                   sm_From = Sender msg,
                   sm_To = (if Is e target then Sender msg else target),
                   sm_Content = LastParam msg\<rparr>)]
           else [])\<rparr>)"
proof -
  from assms(2) have "message e msg s = message_body e msg s"
    by (auto simp: message_def)
  then show ?thesis
    using assms(1)
    by (simp add: message_body_def index_def Let_def sendJSON_def do_call_def go_def)
qed

text \<open>The theorem at a private message from a user, at a message to a channel and at
  a notice of the server to \<open>*\<close>.\<close>

theorem message_routing_witness:
  "message env0 \<lparr>Sender = ''bob'', Command = ''PRIVMSG'', Params = [''me'', ''hello'']\<rparr> s0 =
     Inr (s0\<lparr>trace := [SendJSON ''pm'' (PMessage \<lparr>msg_ID = ''id1'',
                 msg_Server = ''irc.example.org'', msg_From = ''bob'', msg_To = [],
                 msg_Content = ''hello''\<rparr>),
               Call (AddOpenDM ''irc.example.org'' ''bob''),
               Go (LogMessage \<lparr>sm_ID = ''id1'', sm_Server = ''irc.example.org'',
                 sm_From = ''bob'', sm_To = ''bob'', sm_Content = ''hello''\<rparr>)]\<rparr>) \<and>
   message env0 \<lparr>Sender = ''bob'', Command = ''PRIVMSG'', Params = [''#go'', ''hi all'']\<rparr> s0 =
     Inr (s0\<lparr>trace := [SendJSON ''message'' (PMessage \<lparr>msg_ID = ''id1'',
                 msg_Server = ''irc.example.org'', msg_From = ''bob'', msg_To = ''#go'',
                 msg_Content = ''hi all''\<rparr>),
               Go (LogMessage \<lparr>sm_ID = ''id1'', sm_Server = ''irc.example.org'',
                 sm_From = ''bob'', sm_To = ''#go'', sm_Content = ''hi all''\<rparr>)]\<rparr>) \<and>
   message env0 \<lparr>Sender = [], Command = ''NOTICE'', Params = [''*'', ''Looking up your hostname'']\<rparr>
       s0 =
     Inr (s0\<lparr>trace := [SendJSON ''message'' (PMessage \<lparr>msg_ID = ''id1'',
                 msg_Server = ''irc.example.org'', msg_From = [], msg_To = ''*'',
                 msg_Content = ''Looking up your hostname''\<rparr>)]\<rparr>)"
  using message_routing [of "\<lparr>Sender = ''bob'', Command = ''PRIVMSG'',
      Params = [''me'', ''hello'']\<rparr>" "''me''" "[''hello'']" env0 s0]
    message_routing [of "\<lparr>Sender = ''bob'', Command = ''PRIVMSG'',
      Params = [''#go'', ''hi all'']\<rparr>" "''#go''" "[''hi all'']" env0 s0]
    message_routing [of "\<lparr>Sender = [], Command = ''NOTICE'',
      Params = [''*'', ''Looking up your hostname'']\<rparr>" "''*''" "[''Looking up your hostname'']"
      env0 s0]
  by (simp add: env0_def s0_def newIRCHandler_def LastParam_def)

subsection \<open>DCC progress and offers\<close>

lemma fmt_failed:
  "Sprintf ff ''%s: Download failed (%s)'' [AStr f, AStr err] =
     f @ '': Download failed ('' @ err @ '')''"
  by simp

lemma fmt_finished:
  "Sprintf ff ''Download finished, get it here: %s://%s/downloads/%s/%s''
     [AStr scheme, AStr host, AStr user, AStr f] =
     ''Download finished, get it here: '' @ scheme @ ''://'' @ host @ ''/downloads/'' @
       user @ ''/'' @ f"
  by simp

lemma fmt_starting: "Sprintf ff ''%s: Starting download'' [AStr f] = f @ '': Starting download''"
  by simp

lemma fmt_running:
  "Sprintf ff ''%s: %.1f%%, %s, %s remaining, %.1fs left''
     [AStr f, AFloat perc, AStr speed, AStr remaining, AFloat secs] =
     f @ '': '' @ ff 1 perc @ ''%, '' @ speed @ '', '' @ remaining @ '' remaining, '' @
       ff 1 secs @ ''s left''"
  by simp


text \<open>
  C4. A DCC progress notification gives exactly one status message: the failure format
  when the error is set, whatever the percentage; else the completion format with the
  download URL at 100 percent; else the start format at 0 percent; else the intermediate
  format, where the percentage and the seconds to go are both rendered with precision 1.
  The first three are logged: the sender \<open>@dcc\<close> is registered as an open conversation
  and the message is stored; the intermediate one is only sent.
\<close>

theorem dcc_progress_status:
  "(prog_Error p = Some err \<longrightarrow>
      dccProgress e p s = s\<lparr>trace := trace s @
        [SendJSON ''pm'' (PMessage \<lparr>msg_ID = [], msg_Server = Host e, msg_From = ''@dcc'',
           msg_To = [], msg_Content = prog_File p @ '': Download failed ('' @ err @ '')''\<rparr>),
         Call (AddOpenDM (Host e) ''@dcc''),
         Call (LogMessage \<lparr>sm_ID = [], sm_Server = Host e, sm_From = ''@dcc'', sm_To = [],
           sm_Content = prog_File p @ '': Download failed ('' @ err @ '')''\<rparr>)]\<rparr>) \<and>
   (prog_Error p = None \<and> PercCompletion p = Finite 100 \<longrightarrow>
      dccProgress e p s = s\<lparr>trace := trace s @
        [SendJSON ''pm'' (PMessage \<lparr>msg_ID = [], msg_Server = Host e, msg_From = ''@dcc'',
           msg_To = [], msg_Content = ''Download finished, get it here: '' @
             state_String s ''scheme'' @ ''://'' @ state_String s ''host'' @ ''/downloads/'' @
             Username e @ ''/'' @ prog_File p\<rparr>),
         Call (AddOpenDM (Host e) ''@dcc''),
         Call (LogMessage \<lparr>sm_ID = [], sm_Server = Host e, sm_From = ''@dcc'', sm_To = [],
           sm_Content = ''Download finished, get it here: '' @
             state_String s ''scheme'' @ ''://'' @ state_String s ''host'' @ ''/downloads/'' @
             Username e @ ''/'' @ prog_File p\<rparr>)]\<rparr>) \<and>
   (prog_Error p = None \<and> PercCompletion p = Finite 0 \<longrightarrow>
      dccProgress e p s = s\<lparr>trace := trace s @
        [SendJSON ''pm'' (PMessage \<lparr>msg_ID = [], msg_Server = Host e, msg_From = ''@dcc'',
           msg_To = [], msg_Content = prog_File p @ '': Starting download''\<rparr>),
         Call (AddOpenDM (Host e) ''@dcc''),
         Call (LogMessage \<lparr>sm_ID = [], sm_Server = Host e, sm_From = ''@dcc'', sm_To = [],
           sm_Content = prog_File p @ '': Starting download''\<rparr>)]\<rparr>) \<and>
   (prog_Error p = None \<and> PercCompletion p \<noteq> Finite 100 \<and> PercCompletion p \<noteq> Finite 0 \<longrightarrow>
      dccProgress e p s = s\<lparr>trace := trace s @
        [SendJSON ''pm'' (PMessage \<lparr>msg_ID = [], msg_Server = Host e, msg_From = ''@dcc'',
           msg_To = [], msg_Content = prog_File p @ '': '' @ fmt_f e 1 (PercCompletion p) @
             ''%, '' @ Speed p @ '', '' @ BytesRemaining p @ '' remaining, '' @
             fmt_f e 1 (SecondsToGo p) @ ''s left''\<rparr>)]\<rparr>)"
proof (intro conjI)
  show "(prog_Error p = Some err \<longrightarrow>
      dccProgress e p s = s\<lparr>trace := trace s @
        [SendJSON ''pm'' (PMessage \<lparr>msg_ID = [], msg_Server = Host e, msg_From = ''@dcc'',
           msg_To = [], msg_Content = prog_File p @ '': Download failed ('' @ err @ '')''\<rparr>),
         Call (AddOpenDM (Host e) ''@dcc''),
         Call (LogMessage \<lparr>sm_ID = [], sm_Server = Host e, sm_From = ''@dcc'', sm_To = [],
           sm_Content = prog_File p @ '': Download failed ('' @ err @ '')''\<rparr>)]\<rparr>)"
    by (simp add: dccProgress_def sendDCCInfo_eq fmt_failed)
  show "(prog_Error p = None \<and> PercCompletion p = Finite 100 \<longrightarrow>
      dccProgress e p s = s\<lparr>trace := trace s @
        [SendJSON ''pm'' (PMessage \<lparr>msg_ID = [], msg_Server = Host e, msg_From = ''@dcc'',
           msg_To = [], msg_Content = ''Download finished, get it here: '' @
             state_String s ''scheme'' @ ''://'' @ state_String s ''host'' @ ''/downloads/'' @
             Username e @ ''/'' @ prog_File p\<rparr>),
         Call (AddOpenDM (Host e) ''@dcc''),
         Call (LogMessage \<lparr>sm_ID = [], sm_Server = Host e, sm_From = ''@dcc'', sm_To = [],
           sm_Content = ''Download finished, get it here: '' @
             state_String s ''scheme'' @ ''://'' @ state_String s ''host'' @ ''/downloads/'' @
             Username e @ ''/'' @ prog_File p\<rparr>)]\<rparr>)"
    by (simp add: dccProgress_def sendDCCInfo_eq fmt_finished)
  show "(prog_Error p = None \<and> PercCompletion p = Finite 0 \<longrightarrow>
      dccProgress e p s = s\<lparr>trace := trace s @
        [SendJSON ''pm'' (PMessage \<lparr>msg_ID = [], msg_Server = Host e, msg_From = ''@dcc'',
           msg_To = [], msg_Content = prog_File p @ '': Starting download''\<rparr>),
         Call (AddOpenDM (Host e) ''@dcc''),
         Call (LogMessage \<lparr>sm_ID = [], sm_Server = Host e, sm_From = ''@dcc'', sm_To = [],
           sm_Content = prog_File p @ '': Starting download''\<rparr>)]\<rparr>)"
    by (simp add: dccProgress_def sendDCCInfo_eq fmt_starting)
  show "(prog_Error p = None \<and> PercCompletion p \<noteq> Finite 100 \<and> PercCompletion p \<noteq> Finite 0 \<longrightarrow>
      dccProgress e p s = s\<lparr>trace := trace s @
        [SendJSON ''pm'' (PMessage \<lparr>msg_ID = [], msg_Server = Host e, msg_From = ''@dcc'',
           msg_To = [], msg_Content = prog_File p @ '': '' @ fmt_f e 1 (PercCompletion p) @
             ''%, '' @ Speed p @ '', '' @ BytesRemaining p @ '' remaining, '' @
             fmt_f e 1 (SecondsToGo p) @ ''s left''\<rparr>)]\<rparr>)"
    by (simp add: dccProgress_def sendDCCInfo_eq fmt_running)
qed

text \<open>The theorem at a failed, a finished, a starting and a running download.\<close>

theorem dcc_progress_status_witness:
  "dccProgress env0 \<lparr>prog_File = ''a.txt'', prog_Error = Some ''timeout'',
       PercCompletion = Finite 100, Speed = ''0 B/s'', BytesRemaining = ''0 B'',
       SecondsToGo = Finite 0\<rparr> s0 =
     s0\<lparr>trace :=
        [SendJSON ''pm'' (PMessage \<lparr>msg_ID = [], msg_Server = ''irc.example.org'',
           msg_From = ''@dcc'', msg_To = [],
           msg_Content = ''a.txt: Download failed (timeout)''\<rparr>),
         Call (AddOpenDM ''irc.example.org'' ''@dcc''),
         Call (LogMessage \<lparr>sm_ID = [], sm_Server = ''irc.example.org'', sm_From = ''@dcc'',
           sm_To = [], sm_Content = ''a.txt: Download failed (timeout)''\<rparr>)]\<rparr> \<and>
   dccProgress env0 \<lparr>prog_File = ''a.txt'', prog_Error = None,
       PercCompletion = Finite 100, Speed = ''0 B/s'', BytesRemaining = ''0 B'',
       SecondsToGo = Finite 0\<rparr> s0 =
     s0\<lparr>trace :=
        [SendJSON ''pm'' (PMessage \<lparr>msg_ID = [], msg_Server = ''irc.example.org'',
           msg_From = ''@dcc'', msg_To = [], msg_Content =
             ''Download finished, get it here: https://chat.example.org/downloads/ann/a.txt''\<rparr>),
         Call (AddOpenDM ''irc.example.org'' ''@dcc''),
         Call (LogMessage \<lparr>sm_ID = [], sm_Server = ''irc.example.org'', sm_From = ''@dcc'',
           sm_To = [], sm_Content =
             ''Download finished, get it here: https://chat.example.org/downloads/ann/a.txt''\<rparr>)]\<rparr> \<and>
   dccProgress env0 \<lparr>prog_File = ''a.txt'', prog_Error = None,
       PercCompletion = Finite 0, Speed = ''0 B/s'', BytesRemaining = ''2 MB'',
       SecondsToGo = Finite 0\<rparr> s0 =
     s0\<lparr>trace :=
        [SendJSON ''pm'' (PMessage \<lparr>msg_ID = [], msg_Server = ''irc.example.org'',
           msg_From = ''@dcc'', msg_To = [], msg_Content = ''a.txt: Starting download''\<rparr>),
         Call (AddOpenDM ''irc.example.org'' ''@dcc''),
         Call (LogMessage \<lparr>sm_ID = [], sm_Server = ''irc.example.org'', sm_From = ''@dcc'',
           sm_To = [], sm_Content = ''a.txt: Starting download''\<rparr>)]\<rparr> \<and>
   dccProgress env0 \<lparr>prog_File = ''a.txt'', prog_Error = None,
       PercCompletion = Finite (25 / 2), Speed = ''210 kB/s'', BytesRemaining = ''1.7 MB'',
       SecondsToGo = Finite 8\<rparr> s0 =
     s0\<lparr>trace :=
        [SendJSON ''pm'' (PMessage \<lparr>msg_ID = [], msg_Server = ''irc.example.org'',
           msg_From = ''@dcc'', msg_To = [], msg_Content =
             ''a.txt: 12.5%, 210 kB/s, 1.7 MB remaining, 8.0s left''\<rparr>)]\<rparr>"
  using dcc_progress_status [of "\<lparr>prog_File = ''a.txt'', prog_Error = Some ''timeout'',
       PercCompletion = Finite 100, Speed = ''0 B/s'', BytesRemaining = ''0 B'',
       SecondsToGo = Finite 0\<rparr>" "''timeout''" env0 s0]
    dcc_progress_status [of "\<lparr>prog_File = ''a.txt'', prog_Error = None,
       PercCompletion = Finite 100, Speed = ''0 B/s'', BytesRemaining = ''0 B'',
       SecondsToGo = Finite 0\<rparr>" "[]" env0 s0]
    dcc_progress_status [of "\<lparr>prog_File = ''a.txt'', prog_Error = None,
       PercCompletion = Finite 0, Speed = ''0 B/s'', BytesRemaining = ''2 MB'',
       SecondsToGo = Finite 0\<rparr>" "[]" env0 s0]
    dcc_progress_status [of "\<lparr>prog_File = ''a.txt'', prog_Error = None,
       PercCompletion = Finite (25 / 2), Speed = ''210 kB/s'', BytesRemaining = ''1.7 MB'',
       SecondsToGo = Finite 8\<rparr>" "[]" env0 s0]
  by (simp add: env0_def s0_def newIRCHandler_def state_String_def)



subsection \<open>The channel list\<close>

text \<open>
  C5. A channel-list entry (with its three parameters) is added to the accumulator when
  one is active, or to a fresh one when the refresh setting of the host is set; it is
  ignored otherwise; no event is sent in any of these cases. A list end with an active
  accumulator clears the refresh setting, starts the goroutine that finishes the
  accumulator and publishes it in the cache under the host of the connection, replacing
  what was there, and empties the accumulator of the session; a list end with no
  accumulator changes nothing.
\<close>

theorem channel_list_accumulation:
  "(Command m = RPL_LIST \<and> listBuffer s = Some buf \<and> 3 \<le> length (Params m) \<longrightarrow>
      dispatchMessage e m s =
        Inr (s\<lparr>listBuffer := Some (Add \<lparr>item_Name = Params m ! 1,
               item_UserCount = Atoi e (Params m ! 2), item_Topic = LastParam m\<rparr> buf)\<rparr>)) \<and>
   (Command m = RPL_LIST \<and> listBuffer s = None \<and> state_Bool s (update_chanlist e) \<and>
    3 \<le> length (Params m) \<longrightarrow>
      dispatchMessage e m s =
        Inr (s\<lparr>listBuffer := Some (Add \<lparr>item_Name = Params m ! 1,
               item_UserCount = Atoi e (Params m ! 2), item_Topic = LastParam m\<rparr>
               NewMapChannelListIndex)\<rparr>)) \<and>
   (Command m = RPL_LIST \<and> listBuffer s = None \<and> \<not> state_Bool s (update_chanlist e) \<longrightarrow>
      dispatchMessage e m s = Inr s) \<and>
   (Command m = RPL_LISTEND \<and> listBuffer s = Some buf \<longrightarrow>
      dispatchMessage e m s =
        Inr (s\<lparr>settings := (settings s)(update_chanlist e \<mapsto> VBool False),
               trace := trace s @ [Go (PublishIndex buf)], listBuffer := None\<rparr>) \<and>
      \<not> state_Bool (s\<lparr>settings := (settings s)(update_chanlist e \<mapsto> VBool False)\<rparr>)
           (update_chanlist e) \<and>
      channelIndexes (publishIndex e buf t) = (channelIndexes t)(Host e \<mapsto> Finish buf) \<and>
      idx_items (Finish buf) = idx_items buf \<and> idx_finished (Finish buf)) \<and>
   (Command m = RPL_LISTEND \<and> listBuffer s = None \<longrightarrow> dispatchMessage e m s = Inr s)"
  by (simp add: dispatch_list dispatch_listEnd list_entry_def listEnd_def index_def Let_def
      state_Set_def go_def state_Bool_def publishIndex_def Finish_def)

text \<open>The theorem at an entry in each of the three cases, and at a list end in both.\<close>

theorem channel_list_accumulation_witness:
  "dispatchMessage env0 \<lparr>Sender = ''irc.example.org'', Command = ''322'',
       Params = [''me'', ''#a'', ''12'', ''about a'']\<rparr>
       (s0\<lparr>listBuffer := Some NewMapChannelListIndex\<rparr>) =
     Inr (s0\<lparr>listBuffer := Some \<lparr>idx_items = [\<lparr>item_Name = ''#a'', item_UserCount = 12,
            item_Topic = ''about a''\<rparr>], idx_finished = False\<rparr>\<rparr>) \<and>
   dispatchMessage env0 \<lparr>Sender = ''irc.example.org'', Command = ''322'',
       Params = [''me'', ''#a'', ''12'', ''about a'']\<rparr>
       (s0\<lparr>settings := [''update_chanlist_irc.example.org'' \<mapsto> VBool True]\<rparr>) =
     Inr (s0\<lparr>settings := [''update_chanlist_irc.example.org'' \<mapsto> VBool True],
            listBuffer := Some \<lparr>idx_items = [\<lparr>item_Name = ''#a'', item_UserCount = 12,
              item_Topic = ''about a''\<rparr>], idx_finished = False\<rparr>\<rparr>) \<and>
   dispatchMessage env0 \<lparr>Sender = ''irc.example.org'', Command = ''322'',
       Params = [''me'', ''#a'', ''12'', ''about a'']\<rparr> s0 = Inr s0 \<and>
   dispatchMessage env0 \<lparr>Sender = ''irc.example.org'', Command = ''323'',
       Params = [''me'', ''End of /LIST'']\<rparr>
       (s0\<lparr>listBuffer := Some NewMapChannelListIndex\<rparr>) =
     Inr (s0\<lparr>settings := (settings s0)(''update_chanlist_irc.example.org'' \<mapsto> VBool False),
            trace := [Go (PublishIndex NewMapChannelListIndex)]\<rparr>) \<and>
   channelIndexes (publishIndex env0 NewMapChannelListIndex s0) ''irc.example.org'' =
     Some \<lparr>idx_items = [], idx_finished = True\<rparr> \<and>
   dispatchMessage env0 \<lparr>Sender = ''irc.example.org'', Command = ''323'',
       Params = [''me'', ''End of /LIST'']\<rparr> s0 = Inr s0"
  using channel_list_accumulation [where e = env0 and buf = NewMapChannelListIndex and t = s0
      and s = "s0\<lparr>listBuffer := Some NewMapChannelListIndex\<rparr>"
      and m = "\<lparr>Sender = ''irc.example.org'', Command = ''322'',
                Params = [''me'', ''#a'', ''12'', ''about a'']\<rparr>"]
    channel_list_accumulation [where e = env0 and buf = NewMapChannelListIndex and t = s0
      and s = "s0\<lparr>settings := [''update_chanlist_irc.example.org'' \<mapsto> VBool True]\<rparr>"
      and m = "\<lparr>Sender = ''irc.example.org'', Command = ''322'',
                Params = [''me'', ''#a'', ''12'', ''about a'']\<rparr>"]
    channel_list_accumulation [where e = env0 and buf = NewMapChannelListIndex and t = s0
      and s = s0
      and m = "\<lparr>Sender = ''irc.example.org'', Command = ''322'',
                Params = [''me'', ''#a'', ''12'', ''about a'']\<rparr>"]
    channel_list_accumulation [where e = env0 and buf = NewMapChannelListIndex and t = s0
      and s = "s0\<lparr>listBuffer := Some NewMapChannelListIndex\<rparr>"
      and m = "\<lparr>Sender = ''irc.example.org'', Command = ''323'',
                Params = [''me'', ''End of /LIST'']\<rparr>"]
    channel_list_accumulation [where e = env0 and buf = NewMapChannelListIndex and t = s0
      and s = s0
      and m = "\<lparr>Sender = ''irc.example.org'', Command = ''323'',
                Params = [''me'', ''End of /LIST'']\<rparr>"]
  by (simp add: env0_def s0_def newIRCHandler_def state_Bool_def update_chanlist_def
      LastParam_def Add_def NewMapChannelListIndex_def Finish_def RPL_LIST_def RPL_LISTEND_def)

text \<open>
  A run: the welcome reply while the cache needs an update creates the accumulator, three
  entries and the list end follow; the session has no accumulator left, the goroutine was
  started with the three entries, and its body publishes them, finished, under the host.
\<close>

lemma channel_list_scenario:
  "listBuffer (session (projr (run [(env0\<lparr>needsUpdate := True\<rparr>, Msg \<lparr>Sender = ''irc.example.org'', Command = ''001'',
        Params = [''me'', ''Welcome to the network'']\<rparr>),
      (env0, Msg \<lparr>Sender = ''irc.example.org'', Command = ''322'',
        Params = [''me'', ''#a'', ''12'', ''about a'']\<rparr>),
      (env0, Msg \<lparr>Sender = ''irc.example.org'', Command = ''322'',
        Params = [''me'', ''#b'', ''12'', ''about b'']\<rparr>),
      (env0, Msg \<lparr>Sender = ''irc.example.org'', Command = ''322'',
        Params = [''me'', ''#c'', ''12'', ''about c'']\<rparr>),
      (env0, Msg \<lparr>Sender = ''irc.example.org'', Command = ''323'',
        Params = [''me'', ''End of /LIST'']\<rparr>)] s0))) = None \<and>
   last (trace (session (projr (run [(env0\<lparr>needsUpdate := True\<rparr>, Msg \<lparr>Sender = ''irc.example.org'', Command = ''001'',
        Params = [''me'', ''Welcome to the network'']\<rparr>),
      (env0, Msg \<lparr>Sender = ''irc.example.org'', Command = ''322'',
        Params = [''me'', ''#a'', ''12'', ''about a'']\<rparr>),
      (env0, Msg \<lparr>Sender = ''irc.example.org'', Command = ''322'',
        Params = [''me'', ''#b'', ''12'', ''about b'']\<rparr>),
      (env0, Msg \<lparr>Sender = ''irc.example.org'', Command = ''322'',
        Params = [''me'', ''#c'', ''12'', ''about c'']\<rparr>),
      (env0, Msg \<lparr>Sender = ''irc.example.org'', Command = ''323'',
        Params = [''me'', ''End of /LIST'']\<rparr>)] s0)))) =
     Go (PublishIndex \<lparr>idx_items = [\<lparr>item_Name = ''#a'', item_UserCount = 12, item_Topic = ''about a''\<rparr>,
        \<lparr>item_Name = ''#b'', item_UserCount = 12, item_Topic = ''about b''\<rparr>,
        \<lparr>item_Name = ''#c'', item_UserCount = 12, item_Topic = ''about c''\<rparr>],
      idx_finished = False\<rparr>) \<and>
   channelIndexes (publishIndex env0 \<lparr>idx_items = [\<lparr>item_Name = ''#a'', item_UserCount = 12, item_Topic = ''about a''\<rparr>,
        \<lparr>item_Name = ''#b'', item_UserCount = 12, item_Topic = ''about b''\<rparr>,
        \<lparr>item_Name = ''#c'', item_UserCount = 12, item_Topic = ''about c''\<rparr>],
      idx_finished = False\<rparr>
       (session (projr (run [(env0\<lparr>needsUpdate := True\<rparr>, Msg \<lparr>Sender = ''irc.example.org'', Command = ''001'',
        Params = [''me'', ''Welcome to the network'']\<rparr>),
      (env0, Msg \<lparr>Sender = ''irc.example.org'', Command = ''322'',
        Params = [''me'', ''#a'', ''12'', ''about a'']\<rparr>),
      (env0, Msg \<lparr>Sender = ''irc.example.org'', Command = ''322'',
        Params = [''me'', ''#b'', ''12'', ''about b'']\<rparr>),
      (env0, Msg \<lparr>Sender = ''irc.example.org'', Command = ''322'',
        Params = [''me'', ''#c'', ''12'', ''about c'']\<rparr>),
      (env0, Msg \<lparr>Sender = ''irc.example.org'', Command = ''323'',
        Params = [''me'', ''End of /LIST'']\<rparr>)] s0)))) ''irc.example.org'' =
     Some \<lparr>idx_items = [\<lparr>item_Name = ''#a'', item_UserCount = 12, item_Topic = ''about a''\<rparr>,
        \<lparr>item_Name = ''#b'', item_UserCount = 12, item_Topic = ''about b''\<rparr>,
        \<lparr>item_Name = ''#c'', item_UserCount = 12, item_Topic = ''about c''\<rparr>],
      idx_finished = True\<rparr>"
  by (simp add: run_def command_defs dispatch_not_4 handlers_def initHandlers_def info_def
      info_welcome_def list_entry_def listEnd_def index_def sendJSON_def do_call_def go_def
      state_Set_def state_Bool_def update_chanlist_def publishIndex_def Finish_def Add_def
      NewMapChannelListIndex_def LastParam_def s0_def newIRCHandler_def env0_def)

subsection \<open>WHOIS\<close>

lemma run_nick_empty:
  "run_from ins l s = Inr r \<Longrightarrow> whois_Nick (whois s) = [] \<Longrightarrow>
   \<forall>x\<in>set ins. \<not> is_command RPL_WHOISUSER x \<Longrightarrow> whois_Nick (whois (session r)) = []"
proof (induction ins l s rule: run_from.induct)
  case (1 l s)
  then show ?case by auto
next
  case (2 e ins l s)
  then show ?case by (auto simp: do_call_def)
next
  case (3 e msg ins l s)
  from "3.prems"(1) obtain s1 where d: "dispatchMessage e msg s = Inr s1"
    and r: "run_from ins l s1 = Inr r"
    by (auto split: sum.splits)
  have "whois_Nick (whois s1) = []"
  proof (cases "Command msg = RPL_ENDOFWHOIS")
    case True
    with d show ?thesis by (auto simp: dispatch_whois whoisEnd_eq WhoisReply_zero_def)
  next
    case False
    with d "3.prems"(2,3) show ?thesis by (simp add: dispatch_keeps_nick)
  qed
  with "3.IH"[OF d r] "3.prems"(3) show ?case by simp
next
  case (4 e state ins l s)
  obtain l1 s1 where c: "connectionChanged e state (l, s) = (l1, s1)" by force
  then have "whois s1 = whois s" using connectionChanged_frame(1)[of e state "(l, s)"] by simp
  with 4 c show ?case by simp
next
  case (5 e progress ins l s)
  then show ?case by (simp add: dccProgress_frame)
qed

lemma run_nick_kept:
  "run_from ins l s = Inr r \<Longrightarrow>
   \<forall>x\<in>set ins. \<not> is_command RPL_WHOISUSER x \<and> \<not> is_command RPL_ENDOFWHOIS x \<Longrightarrow>
   whois_Nick (whois (session r)) = whois_Nick (whois s)"
proof (induction ins l s rule: run_from.induct)
  case (1 l s)
  then show ?case by auto
next
  case (2 e ins l s)
  then show ?case by (auto simp: do_call_def)
next
  case (3 e msg ins l s)
  from "3.prems"(1) obtain s1 where d: "dispatchMessage e msg s = Inr s1"
    and r: "run_from ins l s1 = Inr r"
    by (auto split: sum.splits)
  from d "3.prems"(2) have "whois_Nick (whois s1) = whois_Nick (whois s)"
    by (simp add: dispatch_keeps_nick)
  with "3.IH"[OF d r] "3.prems"(2) show ?case by simp
next
  case (4 e state ins l s)
  obtain l1 s1 where c: "connectionChanged e state (l, s) = (l1, s1)" by force
  then have "whois s1 = whois s" using connectionChanged_frame(1)[of e state "(l, s)"] by simp
  with 4 c show ?case by simp
next
  case (5 e progress ins l s)
  then show ?case by (simp add: dccProgress_frame)
qed

lemma whois_without_user:
  assumes "Command m = RPL_ENDOFWHOIS" "run_from ins l s = Inr r" "whois_Nick (whois s) = []"
    "\<forall>x\<in>set ins. \<not> is_command RPL_WHOISUSER x"
  shows "dispatchMessage e m (session r) = Inr ((session r)\<lparr>whois := WhoisReply_zero\<rparr>)"
proof -
  from assms(2-4) have "whois_Nick (whois (session r)) = []" by (rule run_nick_empty)
  with assms(1) show ?thesis by (simp add: dispatch_whois whoisEnd_eq)
qed

lemma whois_after_user:
  assumes "Command m = RPL_ENDOFWHOIS" "Command u = RPL_WHOISUSER"
    "run_from ((eu, Msg u) # ins) l s = Inr r" "Params u ! 1 \<noteq> []"
    "\<forall>x\<in>set ins. \<not> is_command RPL_WHOISUSER x \<and> \<not> is_command RPL_ENDOFWHOIS x"
  shows "dispatchMessage e m (session r) =
        Inr ((session r)\<lparr>trace := trace (session r) @
                            [SendJSON ''whois'' (PWhois (whois (session r)))],
                          whois := WhoisReply_zero\<rparr>) \<and>
      whois_Nick (whois (session r)) = Params u ! 1"
proof -
  from assms(2,3) obtain s1 where d: "whoisUser eu u s = Inr s1" and r: "run_from ins l s1 = Inr r"
    by (auto simp: dispatch_whois split: sum.splits)
  from d have "whois_Nick (whois s1) = Params u ! 1" by (auto simp: whoisUser_Inr)
  with run_nick_kept[OF r assms(5)] have n: "whois_Nick (whois (session r)) = Params u ! 1" by simp
  with assms(1,4) show ?thesis by (simp add: dispatch_whois whoisEnd_eq)
qed

text \<open>
  C2. An end-of-WHOIS message sends a \<open>whois\<close> event if and only if the nick of the
  accumulator is not empty, and leaves the accumulator at its zero value either way. So
  when the loop has processed, from a state with an empty nick (a new session, or the
  state after an end marker), inputs with no whois-user message among them, the end
  marker sends nothing; and when it has processed a whois-user message with a non-empty
  nick parameter and then inputs with no whois-user and no end marker among them, the end
  marker sends the event, whose nick is that parameter.
\<close>

theorem whois_end_marker:
  "(Command m = RPL_ENDOFWHOIS \<longrightarrow>
      dispatchMessage e m s =
        Inr ((if whois_Nick (whois s) \<noteq> []
              then s\<lparr>trace := trace s @ [SendJSON ''whois'' (PWhois (whois s))]\<rparr> else s)
             \<lparr>whois := WhoisReply_zero\<rparr>)) \<and>
   (Command m = RPL_ENDOFWHOIS \<and> run_from ins l s = Inr r \<and> whois_Nick (whois s) = [] \<and>
    (\<forall>x\<in>set ins. \<not> is_command RPL_WHOISUSER x) \<longrightarrow>
      dispatchMessage e m (session r) = Inr ((session r)\<lparr>whois := WhoisReply_zero\<rparr>)) \<and>
   (Command m = RPL_ENDOFWHOIS \<and> Command u = RPL_WHOISUSER \<and>
    run_from ((eu, Msg u) # ins) l s = Inr r \<and> Params u ! 1 \<noteq> [] \<and>
    (\<forall>x\<in>set ins. \<not> is_command RPL_WHOISUSER x \<and> \<not> is_command RPL_ENDOFWHOIS x) \<longrightarrow>
      dispatchMessage e m (session r) =
        Inr ((session r)\<lparr>trace := trace (session r) @
                            [SendJSON ''whois'' (PWhois (whois (session r)))],
                          whois := WhoisReply_zero\<rparr>) \<and>
      whois_Nick (whois (session r)) = Params u ! 1)"
proof (intro conjI)
  show "Command m = RPL_ENDOFWHOIS \<longrightarrow>
      dispatchMessage e m s =
        Inr ((if whois_Nick (whois s) \<noteq> []
              then s\<lparr>trace := trace s @ [SendJSON ''whois'' (PWhois (whois s))]\<rparr> else s)
             \<lparr>whois := WhoisReply_zero\<rparr>)"
    by (simp add: dispatch_whois whoisEnd_eq)
  show "Command m = RPL_ENDOFWHOIS \<and> run_from ins l s = Inr r \<and> whois_Nick (whois s) = [] \<and>
    (\<forall>x\<in>set ins. \<not> is_command RPL_WHOISUSER x) \<longrightarrow>
      dispatchMessage e m (session r) = Inr ((session r)\<lparr>whois := WhoisReply_zero\<rparr>)"
    using whois_without_user [of m ins l s r e] by blast
  show "Command m = RPL_ENDOFWHOIS \<and> Command u = RPL_WHOISUSER \<and>
    run_from ((eu, Msg u) # ins) l s = Inr r \<and> Params u ! 1 \<noteq> [] \<and>
    (\<forall>x\<in>set ins. \<not> is_command RPL_WHOISUSER x \<and> \<not> is_command RPL_ENDOFWHOIS x) \<longrightarrow>
      dispatchMessage e m (session r) =
        Inr ((session r)\<lparr>trace := trace (session r) @
                            [SendJSON ''whois'' (PWhois (whois (session r)))],
                          whois := WhoisReply_zero\<rparr>) \<and>
      whois_Nick (whois (session r)) = Params u ! 1"
    using whois_after_user [of m u eu ins l s r e] by blast
qed

text \<open>The theorem at an end marker in a new session, after a whois-server message alone,
  and after a whois-user and a whois-server message.\<close>

theorem whois_end_marker_witness:
  "dispatchMessage env0 \<lparr>Sender = ''irc.example.org'', Command = ''318'',
       Params = [''me'', ''bob'', ''End of /WHOIS list'']\<rparr> s0 = Inr s0 \<and>
   dispatchMessage env0 \<lparr>Sender = ''irc.example.org'', Command = ''318'',
       Params = [''me'', ''bob'', ''End of /WHOIS list'']\<rparr>
     (session (projr (run_from [(env0, Msg \<lparr>Sender = ''irc.example.org'', Command = ''312'',
       Params = [''me'', ''bob'', ''irc.example.org'', ''Example server'']\<rparr>)] None s0))) = Inr s0 \<and>
   dispatchMessage env0 \<lparr>Sender = ''irc.example.org'', Command = ''318'',
       Params = [''me'', ''bob'', ''End of /WHOIS list'']\<rparr>
     (session (projr (run_from [(env0, Msg \<lparr>Sender = ''irc.example.org'', Command = ''311'',
       Params = [''me'', ''bob'', ''bobby'', ''host.example.org'', ''*'', ''Bob B'']\<rparr>), (env0, Msg \<lparr>Sender = ''irc.example.org'', Command = ''312'',
       Params = [''me'', ''bob'', ''irc.example.org'', ''Example server'']\<rparr>)] None s0))) =
     Inr (s0\<lparr>trace := [SendJSON ''whois'' (PWhois \<lparr>whois_Nick = ''bob'',
        whois_Username = ''bobby'', whois_Host = ''host.example.org'', whois_Realname = ''Bob B'',
        whois_Server = ''irc.example.org'', whois_Channels = []\<rparr>)]\<rparr>)"
  using whois_end_marker [where e = env0 and s = s0 and l = None and eu = env0
      and m = "\<lparr>Sender = ''irc.example.org'', Command = ''318'',
       Params = [''me'', ''bob'', ''End of /WHOIS list'']\<rparr>"
      and u = "\<lparr>Sender = ''irc.example.org'', Command = ''311'',
       Params = [''me'', ''bob'', ''bobby'', ''host.example.org'', ''*'', ''Bob B'']\<rparr>"
      and ins = "[(env0, Msg \<lparr>Sender = ''irc.example.org'', Command = ''312'',
       Params = [''me'', ''bob'', ''irc.example.org'', ''Example server'']\<rparr>)]"
      and r = "(projr (run_from [(env0, Msg \<lparr>Sender = ''irc.example.org'', Command = ''312'',
       Params = [''me'', ''bob'', ''irc.example.org'', ''Example server'']\<rparr>)] None s0))"]
    whois_end_marker [where e = env0 and s = s0 and l = None and eu = env0
      and m = "\<lparr>Sender = ''irc.example.org'', Command = ''318'',
       Params = [''me'', ''bob'', ''End of /WHOIS list'']\<rparr>"
      and u = "\<lparr>Sender = ''irc.example.org'', Command = ''311'',
       Params = [''me'', ''bob'', ''bobby'', ''host.example.org'', ''*'', ''Bob B'']\<rparr>"
      and ins = "[(env0, Msg \<lparr>Sender = ''irc.example.org'', Command = ''312'',
       Params = [''me'', ''bob'', ''irc.example.org'', ''Example server'']\<rparr>)]"
      and r = "(projr (run_from [(env0, Msg \<lparr>Sender = ''irc.example.org'', Command = ''311'',
       Params = [''me'', ''bob'', ''bobby'', ''host.example.org'', ''*'', ''Bob B'']\<rparr>), (env0, Msg \<lparr>Sender = ''irc.example.org'', Command = ''312'',
       Params = [''me'', ''bob'', ''irc.example.org'', ''Example server'']\<rparr>)] None s0))"]
  by (simp add: command_defs dispatch_not_4 handlers_def initHandlers_def whoisUser_def
      whoisServer_def whoisEnd_def sendJSON_def index_def s0_def newIRCHandler_def
      WhoisReply_zero_def)

subsection \<open>The message of the day\<close>

lemma run_motd_content:
  "run_from ins l s = Inr r \<Longrightarrow> \<not> returned r \<Longrightarrow>
   \<forall>x\<in>set ins. \<not> is_command RPL_ENDOFMOTD x \<Longrightarrow>
   motd_Content (motdBuffer (session r)) = motd_Content (motdBuffer s) @ motd_lines ins"
proof (induction ins l s rule: run_from.induct)
  case (1 l s)
  then show ?case by auto
next
  case (2 e ins l s)
  then show ?case by auto
next
  case (3 e msg ins l s)
  from "3.prems"(1) obtain s1 where d: "dispatchMessage e msg s = Inr s1"
    and r: "run_from ins l s1 = Inr r"
    by (auto split: sum.splits)
  have "motd_Content (motdBuffer s1) =
      motd_Content (motdBuffer s) @ (if Command msg = RPL_MOTD then [LastParam msg] else [])"
  proof (cases "Command msg = RPL_MOTD")
    case True
    with d show ?thesis by (auto simp: dispatch_motd motd_steps)
  next
    case False
    with d "3.prems"(3) show ?thesis by (simp add: dispatch_keeps_content)
  qed
  with "3.IH"[OF d r] "3.prems"(2,3) show ?case by simp
next
  case (4 e state ins l s)
  obtain l1 s1 where c: "connectionChanged e state (l, s) = (l1, s1)" by force
  then have "motdBuffer s1 = motdBuffer s"
    using connectionChanged_frame(2)[of e state "(l, s)"] by simp
  with 4 c show ?case by simp
next
  case (5 e progress ins l s)
  then show ?case by (simp add: dccProgress_frame)
qed

text \<open>
  C7, in the form that holds of the code. A start message sets the server and the title of the buffer; a line
  message appends its last parameter to the content; the end message sends exactly one
  \<open>motd\<close> event with the buffer, whatever it holds, and resets the buffer to its zero
  value. The content sent is the last parameters of the line messages received since the
  content was last empty, so since the previous end message or the creation of the
  session, in their order of arrival: a start message does not clear it.
\<close>

theorem motd_sequence:
  "(Command m = RPL_MOTDSTART \<longrightarrow>
      dispatchMessage e m s =
        Inr (s\<lparr>motdBuffer := (motdBuffer s)\<lparr>motd_Server := Host e,
               motd_Title := LastParam m\<rparr>\<rparr>)) \<and>
   (Command m = RPL_MOTD \<longrightarrow>
      dispatchMessage e m s =
        Inr (s\<lparr>motdBuffer := (motdBuffer s)\<lparr>motd_Content :=
               motd_Content (motdBuffer s) @ [LastParam m]\<rparr>\<rparr>)) \<and>
   (Command m = RPL_ENDOFMOTD \<longrightarrow>
      dispatchMessage e m s =
        Inr (s\<lparr>trace := trace s @ [SendJSON ''motd'' (PMOTD (motdBuffer s))],
               motdBuffer := MOTD_zero\<rparr>)) \<and>
   (run_from ins l s = Inr r \<and> \<not> returned r \<and> motd_Content (motdBuffer s) = [] \<and>
    (\<forall>x\<in>set ins. \<not> is_command RPL_ENDOFMOTD x) \<longrightarrow>
      motd_Content (motdBuffer (session r)) = motd_lines ins \<and>
      length (motd_Content (motdBuffer (session r))) =
        length (filter (is_command RPL_MOTD) ins))"
proof (intro conjI)
  show "Command m = RPL_MOTDSTART \<longrightarrow>
      dispatchMessage e m s =
        Inr (s\<lparr>motdBuffer := (motdBuffer s)\<lparr>motd_Server := Host e,
               motd_Title := LastParam m\<rparr>\<rparr>)"
    by (simp add: dispatch_motd motd_steps)
  show "Command m = RPL_MOTD \<longrightarrow>
      dispatchMessage e m s =
        Inr (s\<lparr>motdBuffer := (motdBuffer s)\<lparr>motd_Content :=
               motd_Content (motdBuffer s) @ [LastParam m]\<rparr>\<rparr>)"
    by (simp add: dispatch_motd motd_steps)
  show "Command m = RPL_ENDOFMOTD \<longrightarrow>
      dispatchMessage e m s =
        Inr (s\<lparr>trace := trace s @ [SendJSON ''motd'' (PMOTD (motdBuffer s))],
               motdBuffer := MOTD_zero\<rparr>)"
    by (simp add: dispatch_motd motd_steps)
  have len: "length (motd_lines ins) = length (filter (is_command RPL_MOTD) ins)"
    by (induction ins rule: motd_lines.induct) simp_all
  show "run_from ins l s = Inr r \<and> \<not> returned r \<and> motd_Content (motdBuffer s) = [] \<and>
    (\<forall>x\<in>set ins. \<not> is_command RPL_ENDOFMOTD x) \<longrightarrow>
      motd_Content (motdBuffer (session r)) = motd_lines ins \<and>
      length (motd_Content (motdBuffer (session r))) =
        length (filter (is_command RPL_MOTD) ins)"
    using run_motd_content [of ins l s r] len by auto
qed

text \<open>The theorem at a start, a line and an end in a new session, and at the run of a
  start and two lines.\<close>

theorem motd_sequence_witness:
  "dispatchMessage env0 \<lparr>Sender = ''irc.example.org'', Command = ''375'',
       Params = [''me'', ''- irc.example.org Message of the day -'']\<rparr> s0 =
     Inr (s0\<lparr>motdBuffer := \<lparr>motd_Server = ''irc.example.org'',
        motd_Title = ''- irc.example.org Message of the day -'', motd_Content = []\<rparr>\<rparr>) \<and>
   dispatchMessage env0 \<lparr>Sender = ''irc.example.org'', Command = ''372'', Params = [''me'', ''- hello'']\<rparr> s0 =
     Inr (s0\<lparr>motdBuffer := \<lparr>motd_Server = [], motd_Title = [],
        motd_Content = [''- hello'']\<rparr>\<rparr>) \<and>
   dispatchMessage env0 \<lparr>Sender = ''irc.example.org'', Command = ''376'',
       Params = [''me'', ''End of /MOTD command'']\<rparr> s0 =
     Inr (s0\<lparr>trace := [SendJSON ''motd'' (PMOTD \<lparr>motd_Server = [], motd_Title = [],
        motd_Content = []\<rparr>)]\<rparr>) \<and>
   motd_Content (motdBuffer (session (projr (run_from [(env0, Msg \<lparr>Sender = ''irc.example.org'', Command = ''375'',
       Params = [''me'', ''- irc.example.org Message of the day -'']\<rparr>),
      (env0, Msg \<lparr>Sender = ''irc.example.org'', Command = ''372'', Params = [''me'', ''- hello'']\<rparr>),
      (env0, Msg \<lparr>Sender = ''irc.example.org'', Command = ''372'', Params = [''me'', ''- world'']\<rparr>)] None s0)))) =
     [''- hello'', ''- world'']"
  using motd_sequence [where e = env0 and s = s0 and l = None
      and m = "\<lparr>Sender = ''irc.example.org'', Command = ''375'',
       Params = [''me'', ''- irc.example.org Message of the day -'']\<rparr>"
      and ins = "[(env0, Msg \<lparr>Sender = ''irc.example.org'', Command = ''375'',
       Params = [''me'', ''- irc.example.org Message of the day -'']\<rparr>),
      (env0, Msg \<lparr>Sender = ''irc.example.org'', Command = ''372'', Params = [''me'', ''- hello'']\<rparr>),
      (env0, Msg \<lparr>Sender = ''irc.example.org'', Command = ''372'', Params = [''me'', ''- world'']\<rparr>)]"
      and r = "projr (run_from [(env0, Msg \<lparr>Sender = ''irc.example.org'', Command = ''375'',
       Params = [''me'', ''- irc.example.org Message of the day -'']\<rparr>),
      (env0, Msg \<lparr>Sender = ''irc.example.org'', Command = ''372'', Params = [''me'', ''- hello'']\<rparr>),
      (env0, Msg \<lparr>Sender = ''irc.example.org'', Command = ''372'', Params = [''me'', ''- world'']\<rparr>)] None s0)"]
    motd_sequence [where e = env0 and s = s0 and l = None
      and m = "\<lparr>Sender = ''irc.example.org'', Command = ''372'', Params = [''me'', ''- hello'']\<rparr>"
      and ins = "[(env0, Msg \<lparr>Sender = ''irc.example.org'', Command = ''375'',
       Params = [''me'', ''- irc.example.org Message of the day -'']\<rparr>),
      (env0, Msg \<lparr>Sender = ''irc.example.org'', Command = ''372'', Params = [''me'', ''- hello'']\<rparr>),
      (env0, Msg \<lparr>Sender = ''irc.example.org'', Command = ''372'', Params = [''me'', ''- world'']\<rparr>)]"
      and r = "projr (run_from [(env0, Msg \<lparr>Sender = ''irc.example.org'', Command = ''375'',
       Params = [''me'', ''- irc.example.org Message of the day -'']\<rparr>),
      (env0, Msg \<lparr>Sender = ''irc.example.org'', Command = ''372'', Params = [''me'', ''- hello'']\<rparr>),
      (env0, Msg \<lparr>Sender = ''irc.example.org'', Command = ''372'', Params = [''me'', ''- world'']\<rparr>)] None s0)"]
    motd_sequence [where e = env0 and s = s0 and l = None
      and m = "\<lparr>Sender = ''irc.example.org'', Command = ''376'',
       Params = [''me'', ''End of /MOTD command'']\<rparr>"
      and ins = "[(env0, Msg \<lparr>Sender = ''irc.example.org'', Command = ''375'',
       Params = [''me'', ''- irc.example.org Message of the day -'']\<rparr>),
      (env0, Msg \<lparr>Sender = ''irc.example.org'', Command = ''372'', Params = [''me'', ''- hello'']\<rparr>),
      (env0, Msg \<lparr>Sender = ''irc.example.org'', Command = ''372'', Params = [''me'', ''- world'']\<rparr>)]"
      and r = "projr (run_from [(env0, Msg \<lparr>Sender = ''irc.example.org'', Command = ''375'',
       Params = [''me'', ''- irc.example.org Message of the day -'']\<rparr>),
      (env0, Msg \<lparr>Sender = ''irc.example.org'', Command = ''372'', Params = [''me'', ''- hello'']\<rparr>),
      (env0, Msg \<lparr>Sender = ''irc.example.org'', Command = ''372'', Params = [''me'', ''- world'']\<rparr>)] None s0)"]
  by (simp add: command_defs dispatch_not_4 handlers_def initHandlers_def
      motd_steps s0_def newIRCHandler_def MOTD_zero_def LastParam_def env0_def)

text \<open>
  The content is not the lines received since the last start: after a start, a line, a
  second start and a second line, the end message sends both lines.
\<close>

theorem motd_since_start_counterexample:
  "run [(env0, Msg \<lparr>Sender = ''irc.example.org'', Command = ''375'',
       Params = [''me'', ''- irc.example.org Message of the day -'']\<rparr>),
      (env0, Msg \<lparr>Sender = ''irc.example.org'', Command = ''372'', Params = [''me'', ''- hello'']\<rparr>),
      (env0, Msg \<lparr>Sender = ''irc.example.org'', Command = ''375'',
       Params = [''me'', ''- irc.example.org Message of the day -'']\<rparr>),
      (env0, Msg \<lparr>Sender = ''irc.example.org'', Command = ''372'', Params = [''me'', ''- world'']\<rparr>),
      (env0, Msg \<lparr>Sender = ''irc.example.org'', Command = ''376'',
       Params = [''me'', ''End of /MOTD command'']\<rparr>)] s0 =
     Inr \<lparr>returned = False, lastConnErr = None,
          session = s0\<lparr>trace := [SendJSON ''motd'' (PMOTD \<lparr>motd_Server = ''irc.example.org'',
            motd_Title = ''- irc.example.org Message of the day -'',
            motd_Content = [''- hello'', ''- world'']\<rparr>)]\<rparr>\<rparr> \<and>
   lines_since_start [(env0, Msg \<lparr>Sender = ''irc.example.org'', Command = ''375'',
       Params = [''me'', ''- irc.example.org Message of the day -'']\<rparr>),
      (env0, Msg \<lparr>Sender = ''irc.example.org'', Command = ''372'', Params = [''me'', ''- hello'']\<rparr>),
      (env0, Msg \<lparr>Sender = ''irc.example.org'', Command = ''375'',
       Params = [''me'', ''- irc.example.org Message of the day -'']\<rparr>),
      (env0, Msg \<lparr>Sender = ''irc.example.org'', Command = ''372'', Params = [''me'', ''- world'']\<rparr>)] [] = [''- world'']"
  by (simp add: run_def command_defs dispatch_not_4 handlers_def initHandlers_def
      motd_steps s0_def newIRCHandler_def MOTD_zero_def LastParam_def env0_def)

subsection \<open>Logging of the connection state\<close>

lemma conn_error_of_simps:
  "conn_error_of (SendJSON n v) = None"
  "conn_error_of (Go c) = None"
  "conn_error_of (Call (Log u h [LStr ''Connection error:'', LErr err])) = Some err"
  "conn_error_of (Call (Log u h [LStr ''Connected''])) = None"
  by (simp_all add: conn_error_of_def)

lemma conn_error_is_log: "\<not> is_log a \<Longrightarrow> conn_error_of a = None"
  by (cases a rule: is_log.cases) (simp_all add: conn_error_of_def)

lemma logged_errors_append: "logged_errors (xs @ ys) = logged_errors xs @ logged_errors ys"
  by (induction xs) (simp_all split: option.splits)

lemma logged_errors_filter: "logged_errors (filter is_log t) = logged_errors t"
  by (induction t) (auto simp: conn_error_is_log split: option.splits)

lemma logged_errors_quiet:
  "filter is_log t' = filter is_log t \<Longrightarrow> logged_errors t' = logged_errors t"
  by (metis logged_errors_filter)

lemma connectionChanged_logged:
  "logged_errors (trace (snd (connectionChanged e st (l, s)))) =
     logged_errors (trace s) @
       (case conn_Error st of Some err \<Rightarrow> if l \<noteq> Some err then [err] else [] | None \<Rightarrow> [])"
  "fst (connectionChanged e st (l, s)) = (case conn_Error st of Some err \<Rightarrow> Some err | None \<Rightarrow> l)"
  by (simp_all add: connectionChanged_eq logged_errors_append conn_error_of_simps
      conn_error_is_log split: option.splits)

lemma last_logged_quiet:
  "filter is_log t' = filter is_log t \<Longrightarrow> last_logged_error t' = last_logged_error t"
  using logged_errors_quiet[of t' t] by (simp add: last_logged_error_def)

lemma connectionChanged_inv:
  assumes c: "connectionChanged e st (l, s) = (l1, s1)" and l: "l = last_logged_error (trace s)"
  shows "l1 = last_logged_error (trace s1) \<and>
         (distinct_adj (logged_errors (trace s)) \<longrightarrow> distinct_adj (logged_errors (trace s1)))"
proof -
  from c have le: "logged_errors (trace s1) = logged_errors (trace s) @
       (case conn_Error st of Some err \<Rightarrow> if l \<noteq> Some err then [err] else [] | None \<Rightarrow> [])"
    and l1: "l1 = (case conn_Error st of Some err \<Rightarrow> Some err | None \<Rightarrow> l)"
    using connectionChanged_logged[of e st l s] by simp_all
  show ?thesis
  proof (cases "conn_Error st")
    case None
    with le l1 l show ?thesis by (simp add: last_logged_error_def)
  next
    case (Some err)
    show ?thesis
    proof (cases "l = Some err")
      case True
      with le l1 l Some show ?thesis by (simp add: last_logged_error_def)
    next
      case False
      with l have "logged_errors (trace s) = [] \<or> last (logged_errors (trace s)) \<noteq> err"
        by (auto simp: last_logged_error_def split: if_splits)
      with le l1 Some False show ?thesis
        by (auto simp: last_logged_error_def distinct_adj_append_iff)
    qed
  qed
qed

lemma run_conn_inv:
  "run_from ins l s = Inr r \<Longrightarrow> l = last_logged_error (trace s) \<Longrightarrow>
   distinct_adj (logged_errors (trace s)) \<Longrightarrow>
   lastConnErr r = last_logged_error (trace (session r)) \<and>
   distinct_adj (logged_errors (trace (session r)))"
proof (induction ins l s rule: run_from.induct)
  case (1 l s)
  then show ?case by auto
next
  case (2 e ins l s)
  have "filter is_log (trace (do_call (DeleteIRC (Host e)) s)) = filter is_log (trace s)"
    by (simp add: do_call_def)
  then have "last_logged_error (trace (do_call (DeleteIRC (Host e)) s)) = last_logged_error (trace s)"
    "logged_errors (trace (do_call (DeleteIRC (Host e)) s)) = logged_errors (trace s)"
    by (rule last_logged_quiet, rule logged_errors_quiet)
  with 2 show ?case by auto
next
  case (3 e msg ins l s)
  from "3.prems"(1) obtain s1 where d: "dispatchMessage e msg s = Inr s1"
    and r: "run_from ins l s1 = Inr r"
    by (auto split: sum.splits)
  from d have q: "filter is_log (trace s1) = filter is_log (trace s)"
    by (rule dispatch_quiet)
  from "3.prems"(2,3) have "l = last_logged_error (trace s1)"
    "distinct_adj (logged_errors (trace s1))"
    by (simp_all add: last_logged_quiet[OF q] logged_errors_quiet[OF q])
  with "3.IH"[OF d r] show ?case by simp
next
  case (4 e state ins l s)
  obtain l1 s1 where c: "connectionChanged e state (l, s) = (l1, s1)" by force
  from "4.prems"(1) c have r: "run_from ins l1 s1 = Inr r" by simp
  from connectionChanged_inv[OF c "4.prems"(2)] "4.prems"(3)
  have "l1 = last_logged_error (trace s1)" "distinct_adj (logged_errors (trace s1))"
    by simp_all
  with "4.IH"[OF c[symmetric] r] show ?case by simp
next
  case (5 e progress ins l s)
  have q: "filter is_log (trace (dccProgress e progress s)) = filter is_log (trace s)"
    by (rule dccProgress_quiet)
  from "5.prems"(1) have r: "run_from ins l (dccProgress e progress s) = Inr r" by simp
  from "5.prems"(2,3) have "l = last_logged_error (trace (dccProgress e progress s))"
    "distinct_adj (logged_errors (trace (dccProgress e progress s)))"
    by (simp_all add: last_logged_quiet[OF q] logged_errors_quiet[OF q])
  with "5.IH"[OF r] show ?case by simp
qed

text \<open>
  C8. Whatever the run loop has received since it started, its variable \<^verbatim>\<open>lastConnErr\<close> is
  the connection error it logged last, and no two errors logged one after the other have
  the same text. So the next connection-state change that carries an error is logged if
  and only if its text differs from the text of the error logged last (or none was
  logged yet); and a change with no error that reports connected is always logged as
  \<open>Connected\<close>.
\<close>

theorem connection_logging:
  "(run ins s = Inr r \<and> logged_errors (trace s) = [] \<longrightarrow>
      lastConnErr r = last_logged_error (trace (session r)) \<and>
      distinct_adj (logged_errors (trace (session r))) \<and>
      snd (connectionChanged e st (lastConnErr r, session r)) =
        (session r)\<lparr>trace := trace (session r) @
           [SendJSON ''connection_update'' (PConnectionUpdate (Host e) st),
            Call (SetConnectionState (Host e) st)] @
           (case conn_Error st of
              Some err \<Rightarrow>
                if last_logged_error (trace (session r)) \<noteq> Some err
                then [Call (Log (UserID e) (Host e) [LStr ''Connection error:'', LErr err])]
                else if Connected st then [Call (Log (UserID e) (Host e) [LStr ''Connected''])]
                else []
            | None \<Rightarrow>
                if Connected st then [Call (Log (UserID e) (Host e) [LStr ''Connected''])]
                else [])\<rparr>) \<and>
   (conn_Error st = None \<and> Connected st \<longrightarrow>
      snd (connectionChanged e st (l, s)) =
        s\<lparr>trace := trace s @
           [SendJSON ''connection_update'' (PConnectionUpdate (Host e) st),
            Call (SetConnectionState (Host e) st),
            Call (Log (UserID e) (Host e) [LStr ''Connected''])]\<rparr>)"
proof (intro conjI impI)
  assume a: "run ins s = Inr r \<and> logged_errors (trace s) = []"
  then have "run_from ins None s = Inr r" "None = last_logged_error (trace s)"
    "distinct_adj (logged_errors (trace s))"
    by (simp_all add: run_def last_logged_error_def)
  then have inv: "lastConnErr r = last_logged_error (trace (session r)) \<and>
      distinct_adj (logged_errors (trace (session r)))"
    by (rule run_conn_inv)
  from inv show "lastConnErr r = last_logged_error (trace (session r))" by simp
  from inv show "distinct_adj (logged_errors (trace (session r)))" by simp
  from inv show "snd (connectionChanged e st (lastConnErr r, session r)) =
        (session r)\<lparr>trace := trace (session r) @
           [SendJSON ''connection_update'' (PConnectionUpdate (Host e) st),
            Call (SetConnectionState (Host e) st)] @
           (case conn_Error st of
              Some err \<Rightarrow>
                if last_logged_error (trace (session r)) \<noteq> Some err
                then [Call (Log (UserID e) (Host e) [LStr ''Connection error:'', LErr err])]
                else if Connected st then [Call (Log (UserID e) (Host e) [LStr ''Connected''])]
                else []
            | None \<Rightarrow>
                if Connected st then [Call (Log (UserID e) (Host e) [LStr ''Connected''])]
                else [])\<rparr>"
    by (simp add: connectionChanged_eq)
next
  assume "conn_Error st = None \<and> Connected st"
  then show "snd (connectionChanged e st (l, s)) =
        s\<lparr>trace := trace s @
           [SendJSON ''connection_update'' (PConnectionUpdate (Host e) st),
            Call (SetConnectionState (Host e) st),
            Call (Log (UserID e) (Host e) [LStr ''Connected''])]\<rparr>"
    by (simp add: connectionChanged_eq)
qed

text \<open>The theorem after the same error twice: one is logged, and a third is not; and at a
  change that reports connected.\<close>

theorem connection_logging_witness:
  "logged_errors (trace (session (projr (run [(env0, ConnectionChanged \<lparr>Connected = False, conn_Error = Some ''connection refused''\<rparr>),
      (env0, ConnectionChanged \<lparr>Connected = False, conn_Error = Some ''connection refused''\<rparr>)] s0)))) = [''connection refused''] \<and>
   snd (connectionChanged env0 \<lparr>Connected = False, conn_Error = Some ''connection refused''\<rparr>
         (lastConnErr (projr (run [(env0, ConnectionChanged \<lparr>Connected = False, conn_Error = Some ''connection refused''\<rparr>),
      (env0, ConnectionChanged \<lparr>Connected = False, conn_Error = Some ''connection refused''\<rparr>)] s0)),
          session (projr (run [(env0, ConnectionChanged \<lparr>Connected = False, conn_Error = Some ''connection refused''\<rparr>),
      (env0, ConnectionChanged \<lparr>Connected = False, conn_Error = Some ''connection refused''\<rparr>)] s0)))) =
     (session (projr (run [(env0, ConnectionChanged \<lparr>Connected = False, conn_Error = Some ''connection refused''\<rparr>),
      (env0, ConnectionChanged \<lparr>Connected = False, conn_Error = Some ''connection refused''\<rparr>)] s0)))
       \<lparr>trace := trace (session (projr (run [(env0, ConnectionChanged \<lparr>Connected = False, conn_Error = Some ''connection refused''\<rparr>),
      (env0, ConnectionChanged \<lparr>Connected = False, conn_Error = Some ''connection refused''\<rparr>)] s0))) @
          [SendJSON ''connection_update'' (PConnectionUpdate ''irc.example.org''
             \<lparr>Connected = False, conn_Error = Some ''connection refused''\<rparr>),
           Call (SetConnectionState ''irc.example.org''
             \<lparr>Connected = False, conn_Error = Some ''connection refused''\<rparr>)]\<rparr> \<and>
   snd (connectionChanged env0 \<lparr>Connected = True, conn_Error = None\<rparr> (None, s0)) =
     s0\<lparr>trace :=
        [SendJSON ''connection_update'' (PConnectionUpdate ''irc.example.org''
           \<lparr>Connected = True, conn_Error = None\<rparr>),
         Call (SetConnectionState ''irc.example.org'' \<lparr>Connected = True, conn_Error = None\<rparr>),
         Call (Log 1 ''irc.example.org'' [LStr ''Connected''])]\<rparr>"
  using connection_logging [where e = env0 and s = s0 and l = None
      and ins = "[(env0, ConnectionChanged \<lparr>Connected = False, conn_Error = Some ''connection refused''\<rparr>),
      (env0, ConnectionChanged \<lparr>Connected = False, conn_Error = Some ''connection refused''\<rparr>)]"
      and r = "(projr (run [(env0, ConnectionChanged \<lparr>Connected = False, conn_Error = Some ''connection refused''\<rparr>),
      (env0, ConnectionChanged \<lparr>Connected = False, conn_Error = Some ''connection refused''\<rparr>)] s0))"
      and st = "\<lparr>Connected = False, conn_Error = Some ''connection refused''\<rparr>"]
    connection_logging [where e = env0 and s = s0 and l = None
      and ins = "[(env0, ConnectionChanged \<lparr>Connected = False, conn_Error = Some ''connection refused''\<rparr>),
      (env0, ConnectionChanged \<lparr>Connected = False, conn_Error = Some ''connection refused''\<rparr>)]"
      and r = "(projr (run [(env0, ConnectionChanged \<lparr>Connected = False, conn_Error = Some ''connection refused''\<rparr>),
      (env0, ConnectionChanged \<lparr>Connected = False, conn_Error = Some ''connection refused''\<rparr>)] s0))"
      and st = "\<lparr>Connected = True, conn_Error = None\<rparr>"]
  by (simp add: run_def connectionChanged_eq s0_def newIRCHandler_def env0_def
      last_logged_error_def logged_errors_append conn_error_of_simps conn_error_is_log)

subsection \<open>Reads without bounds checks\<close>

lemma join_total: "(\<exists>s'. join e m s = Inr s') \<longleftrightarrow> 1 \<le> length (Params m)"
  by (auto simp: join_def index_def Let_def Suc_le_eq)

lemma part_total: "(\<exists>s'. part e m s = Inr s') \<longleftrightarrow> 1 \<le> length (Params m)"
  by (auto simp: part_def index_def Let_def Suc_le_eq)

lemma info_welcome_total:
  "Command m = RPL_WELCOME \<Longrightarrow> (\<exists>s'. info e m s = Inr s') \<longleftrightarrow> 1 \<le> length (Params m)"
  by (auto simp: info_def info_welcome_def index_def Let_def Suc_le_eq split: sum.splits)

lemma whoisUser_total: "(\<exists>s'. whoisUser e m s = Inr s') \<longleftrightarrow> 6 \<le> length (Params m)"
  by (auto simp: whoisUser_Inr)

lemma list_entry_total:
  "(\<exists>s'. list_entry e m s = Inr s') \<longleftrightarrow>
     3 \<le> length (Params m) \<or> (listBuffer s = None \<and> \<not> state_Bool s (update_chanlist e))"
  by (auto simp: list_entry_def index_def Let_def split: option.splits)

text \<open>
  C9, in the form that holds of the code. Dispatch reads the first character of the command and panics when the
  command is empty. A whois-user message is handled without a panic exactly when it has at
  least six parameters, a join, a part and a welcome message exactly when they have at
  least one. A list entry needs its three parameters only when an accumulator is active
  or the refresh setting is set: with neither, it is ignored before any parameter is
  read. An index at or beyond the length of the parameters has no value: it panics.
\<close>

theorem handlers_index_preconditions:
  "(Command m = [] \<longrightarrow> dispatchMessage e m s = Inl (IndexOutOfRange 0 0, s)) \<and>
   (Command m = RPL_WHOISUSER \<longrightarrow>
      ((\<exists>s'. dispatchMessage e m s = Inr s') \<longleftrightarrow> 6 \<le> length (Params m))) \<and>
   (Command m = JOIN \<longrightarrow>
      ((\<exists>s'. dispatchMessage e m s = Inr s') \<longleftrightarrow> 1 \<le> length (Params m))) \<and>
   (Command m = PART \<longrightarrow>
      ((\<exists>s'. dispatchMessage e m s = Inr s') \<longleftrightarrow> 1 \<le> length (Params m))) \<and>
   (Command m = RPL_WELCOME \<longrightarrow>
      ((\<exists>s'. dispatchMessage e m s = Inr s') \<longleftrightarrow> 1 \<le> length (Params m))) \<and>
   (Command m = RPL_LIST \<longrightarrow>
      ((\<exists>s'. dispatchMessage e m s = Inr s') \<longleftrightarrow>
         3 \<le> length (Params m) \<or>
         (listBuffer s = None \<and> \<not> state_Bool s (update_chanlist e)))) \<and>
   (length ps \<le> n \<longrightarrow> index ps n s = Inl (IndexOutOfRange n (length ps), s))"
proof (intro conjI)
  show "Command m = [] \<longrightarrow> dispatchMessage e m s = Inl (IndexOutOfRange 0 0, s)"
    by (simp add: dispatchMessage_def)
  show "Command m = RPL_WHOISUSER \<longrightarrow>
      ((\<exists>s'. dispatchMessage e m s = Inr s') \<longleftrightarrow> 6 \<le> length (Params m))"
    by (simp add: dispatch_whois whoisUser_total)
  show "Command m = JOIN \<longrightarrow>
      ((\<exists>s'. dispatchMessage e m s = Inr s') \<longleftrightarrow> 1 \<le> length (Params m))"
    by (simp add: dispatch_words join_total)
  show "Command m = PART \<longrightarrow>
      ((\<exists>s'. dispatchMessage e m s = Inr s') \<longleftrightarrow> 1 \<le> length (Params m))"
    by (simp add: dispatch_words part_total)
  show "Command m = RPL_WELCOME \<longrightarrow>
      ((\<exists>s'. dispatchMessage e m s = Inr s') \<longleftrightarrow> 1 \<le> length (Params m))"
    by (simp add: dispatch_words info_welcome_total)
  show "Command m = RPL_LIST \<longrightarrow>
      ((\<exists>s'. dispatchMessage e m s = Inr s') \<longleftrightarrow>
         3 \<le> length (Params m) \<or>
         (listBuffer s = None \<and> \<not> state_Bool s (update_chanlist e)))"
    by (simp add: dispatch_list list_entry_total)
  show "length ps \<le> n \<longrightarrow> index ps n s = Inl (IndexOutOfRange n (length ps), s)"
    by (simp add: index_def)
qed

text \<open>The theorem at a message with an empty command and at messages that are too short.\<close>

theorem handlers_index_preconditions_witness:
  "dispatchMessage env0 \<lparr>Sender = ''irc.example.org'', Command = [], Params = [''me'']\<rparr> s0 =
     Inl (IndexOutOfRange 0 0, s0) \<and>
   dispatchMessage env0 \<lparr>Sender = ''irc.example.org'', Command = ''311'', Params = [''me'', ''bob'']\<rparr> s0 =
     Inl (IndexOutOfRange 2 2, s0\<lparr>whois := (whois s0)\<lparr>whois_Nick := ''bob''\<rparr>\<rparr>) \<and>
   dispatchMessage env0 \<lparr>Sender = ''bob'', Command = ''JOIN'', Params = []\<rparr> s0 =
     Inl (IndexOutOfRange 0 0,
          s0\<lparr>trace := [SendJSON ''join'' (PJoin ''irc.example.org'' ''bob'' [])]\<rparr>) \<and>
   dispatchMessage env0 \<lparr>Sender = ''bob'', Command = ''PART'', Params = []\<rparr> s0 =
     Inl (IndexOutOfRange 0 0, s0) \<and>
   dispatchMessage env0 \<lparr>Sender = ''irc.example.org'', Command = ''001'', Params = []\<rparr> s0 =
     Inl (IndexOutOfRange 0 0, s0) \<and>
   dispatchMessage env0 \<lparr>Sender = ''irc.example.org'', Command = ''322'', Params = [''me'', ''#a'']\<rparr>
     (s0\<lparr>listBuffer := Some NewMapChannelListIndex\<rparr>) =
     Inl (IndexOutOfRange 2 2, s0\<lparr>listBuffer := Some NewMapChannelListIndex\<rparr>) \<and>
   index [''me'', ''#a''] 2 s0 = Inl (IndexOutOfRange 2 2, s0)"
  using handlers_index_preconditions [where e = env0 and s = "s0" and n = 2
      and ps = "[''me'', ''#a'']"
      and m = "\<lparr>Sender = ''irc.example.org'', Command = [], Params = [''me'']\<rparr>"]
    handlers_index_preconditions [where e = env0 and s = "s0" and n = 2
      and ps = "[''me'', ''#a'']"
      and m = "\<lparr>Sender = ''irc.example.org'', Command = ''311'', Params = [''me'', ''bob'']\<rparr>"]
    handlers_index_preconditions [where e = env0 and s = "s0" and n = 2
      and ps = "[''me'', ''#a'']"
      and m = "\<lparr>Sender = ''bob'', Command = ''JOIN'', Params = []\<rparr>"]
    handlers_index_preconditions [where e = env0 and s = "s0" and n = 2
      and ps = "[''me'', ''#a'']"
      and m = "\<lparr>Sender = ''bob'', Command = ''PART'', Params = []\<rparr>"]
    handlers_index_preconditions [where e = env0 and s = "s0" and n = 2
      and ps = "[''me'', ''#a'']"
      and m = "\<lparr>Sender = ''irc.example.org'', Command = ''001'', Params = []\<rparr>"]
    handlers_index_preconditions [where e = env0 and s = "s0\<lparr>listBuffer := Some NewMapChannelListIndex\<rparr>" and n = 2
      and ps = "[''me'', ''#a'']"
      and m = "\<lparr>Sender = ''irc.example.org'', Command = ''322'', Params = [''me'', ''#a'']\<rparr>"]
  by (simp add: command_defs dispatch_not_4 handlers_def initHandlers_def dispatchMessage_def
      whoisUser_def join_def part_def info_def info_welcome_def list_entry_def index_def
      sendJSON_def s0_def newIRCHandler_def env0_def)

text \<open>A list entry with a single parameter is handled without a panic when no accumulator
  is active and no refresh was asked for.\<close>

theorem list_entry_short_counterexample:
  "dispatchMessage env0 \<lparr>Sender = ''irc.example.org'', Command = ''322'', Params = [''me'']\<rparr> s0 = Inr s0 \<and>
   length (Params \<lparr>Sender = ''irc.example.org'', Command = ''322'', Params = [''me'']\<rparr>) = 1"
  by (simp add: command_defs dispatch_not_4 handlers_def initHandlers_def list_entry_def
      state_Bool_def update_chanlist_def s0_def newIRCHandler_def env0_def)

end
